theory Spec2Isabelle
  imports Complex_Main
begin

section \<open>Python helpers: string formatting, joins and slices\<close>

text \<open>
  \<open>str(n)\<close> for a non-negative integer, and for any integer. Used wherever an f-string
  interpolates a number.
\<close>

definition digit_char :: "nat \<Rightarrow> char" where
  "digit_char d = ''0123456789'' ! d"

fun str_nat :: "nat \<Rightarrow> string" where
  "str_nat n = (if n < 10 then [digit_char n] else str_nat (n div 10) @ [digit_char (n mod 10)])"

declare str_nat.simps [simp del]

definition str_int :: "int \<Rightarrow> string" where
  "str_int i = (if i < 0 then CHR ''-'' # str_nat (nat (- i)) else str_nat (nat i))"

text \<open>\<open>sep.join(xs)\<close>.\<close>

fun join_str :: "string \<Rightarrow> string list \<Rightarrow> string" where
  "join_str sep [] = []"
| "join_str sep [x] = x"
| "join_str sep (x # y # ys) = x @ sep @ join_str sep (y # ys)"

text \<open>
  \<open>xs[:n]\<close> for a Python integer \<open>n\<close>: a non-negative bound takes a prefix, a negative one
  drops that many elements from the end.
\<close>

definition py_take :: "int \<Rightarrow> 'a list \<Rightarrow> 'a list" where
  "py_take n xs = (if 0 \<le> n then take (nat n) xs else take (length xs - nat (- n)) xs)"

section \<open>Workers\<close>

text \<open>A worker of the inventory: the dictionary \<open>get_clients\<close> returns, read by its \<open>id\<close>.\<close>

record client =
  cl_id :: string
  cl_hostname :: string

section \<open>Prechecks: \<open>PrecheckRunner.run_all_prechecks\<close>\<close>

datatype CheckSeverity = INFO | WARNING | CRITICAL

record CheckResult =
  check_name :: string
  check_passed :: bool
  check_severity :: CheckSeverity
  check_message :: string

datatype ClientStatus = UNKNOWN | ONLINE | OFFLINE | BUSY | ERROR | UNREACHABLE

fun ClientStatus_value :: "ClientStatus \<Rightarrow> string" where
  "ClientStatus_value UNKNOWN = ''unknown''"
| "ClientStatus_value ONLINE = ''online''"
| "ClientStatus_value OFFLINE = ''offline''"
| "ClientStatus_value BUSY = ''busy''"
| "ClientStatus_value ERROR = ''error''"
| "ClientStatus_value UNREACHABLE = ''unreachable''"

record ClientHealthResult =
  chr_client_id :: string
  chr_hostname :: string
  chr_status :: ClientStatus
  chr_errors :: "string list"

record CommandResult =
  cmd_command :: string
  cmd_stderr :: string
  cmd_success :: bool
  cmd_blocking :: bool

record PrecheckReport =
  overall_status :: string
  can_proceed :: bool
  cluster_health :: "string option"
  cluster_checks :: "CheckResult list"
  clients_total :: nat
  clients_online :: nat
  clients_offline :: int
  client_results :: "ClientHealthResult list"
  excluded_clients :: "string list"
  custom_command_results :: "CommandResult list"
  network_baseline :: "string option"
  warnings :: "string list"
  blocking_issues :: "string list"
  proceed_message :: string

text \<open>
  The runner's own fields, and what its collaborators answer during one run. The two
  cluster calls (\<open>get_cluster_state\<close> then \<open>run_all_checks\<close>) sit inside the runner's
  \<open>try\<close>, so an exception of theirs is data; the custom-command runner and the client
  checker are called outside any \<open>try\<close>, so an exception of theirs leaves
  \<open>run_all_prechecks\<close>. The report's three clock fields are left out: nothing is
  computed from them.
\<close>

record PrecheckRunner =
  check_cluster :: bool
  check_clients :: bool
  check_network :: bool
  custom_commands :: "string list"
  runner_clients :: "client list"
  backend_is_ceph :: bool

record precheck_answers =
  get_cluster_state :: "string + string"
  run_all_checks :: "string + CheckResult list"
  run_multiple :: "string + CommandResult list"
  check_all_clients :: "string + ClientHealthResult list"

text \<open>The loop over the cluster checks (lines 68-72).\<close>

fun collect_cluster_checks ::
  "CheckResult list \<Rightarrow> string list \<times> string list \<Rightarrow> string list \<times> string list" where
  "collect_cluster_checks [] (bs, ws) = (bs, ws)"
| "collect_cluster_checks (c # cs) (bs, ws) =
     (if \<not> check_passed c then
        collect_cluster_checks cs
          (bs @ [''[Cluster] '' @ check_name c @ '': '' @ check_message c], ws)
      else if check_severity c = WARNING then
        collect_cluster_checks cs
          (bs, ws @ [''[Cluster] '' @ check_name c @ '': '' @ check_message c])
      else collect_cluster_checks cs (bs, ws))"

text \<open>The loop over the custom command results (lines 96-98).\<close>

fun collect_commands :: "CommandResult list \<Rightarrow> string list \<Rightarrow> string list" where
  "collect_commands [] bs = bs"
| "collect_commands (r # rs) bs =
     (if \<not> cmd_success r \<and> cmd_blocking r then
        collect_commands rs (bs @ [''[Command] '' @ cmd_command r @ '': '' @ cmd_stderr r])
      else collect_commands rs bs)"

text \<open>
  The loop over the client health results (lines 135-147); the accumulator is
  (clients online, excluded clients, warnings).
\<close>

fun collect_clients ::
  "ClientHealthResult list \<Rightarrow> nat \<times> string list \<times> string list
     \<Rightarrow> nat \<times> string list \<times> string list" where
  "collect_clients [] acc = acc"
| "collect_clients (r # rs) (n, ex, ws) =
     (if chr_status r = ONLINE then collect_clients rs (n + 1, ex, ws)
      else if chr_status r = UNREACHABLE then
        collect_clients rs
          (n, ex @ [chr_client_id r],
           ws @ [''[Client] '' @ chr_hostname r @ '': unreachable - ''
                   @ join_str '', '' (chr_errors r)])
      else
        collect_clients rs
          (n, ex @ [chr_client_id r],
           ws @ [''[Client] '' @ chr_hostname r @ '': '' @ ClientStatus_value (chr_status r)]))"

text \<open>Lines 159-171: the verdict, from the two collected lists.\<close>

definition verdict :: "string list \<Rightarrow> string list \<Rightarrow> string \<times> bool \<times> string" where
  "verdict bs ws =
     (if bs \<noteq> [] then
        (''failed'', False,
         ''Cannot proceed: '' @ str_nat (length bs) @ '' critical issue(s)'')
      else if ws \<noteq> [] then
        (''passed_with_warnings'', True,
         ''Can proceed with '' @ str_nat (length ws) @ '' warning(s)'')
      else (''passed'', True, ''All checks passed. Ready to proceed.''))"

text \<open>Phase 1 (lines 54-76): health, checks, blocking issues, warnings.\<close>

definition cluster_phase ::
  "PrecheckRunner \<Rightarrow> precheck_answers
     \<Rightarrow> string option \<times> CheckResult list \<times> string list \<times> string list" where
  "cluster_phase r a =
     (if check_cluster r \<and> backend_is_ceph r then
        (case get_cluster_state a of
           Inl e \<Rightarrow> (None, [], [''[Cluster] Connection failed: '' @ e], [])
         | Inr health \<Rightarrow>
             (case run_all_checks a of
                Inl e \<Rightarrow> (Some health, [], [''[Cluster] Connection failed: '' @ e], [])
              | Inr checks \<Rightarrow>
                  (let (bs, ws) = collect_cluster_checks checks ([], [])
                   in (Some health, checks, bs, ws))))
      else (None, [], [], []))"

definition run_all_prechecks :: "PrecheckRunner \<Rightarrow> precheck_answers \<Rightarrow> string + PrecheckReport" where
  "run_all_prechecks r a =
     (let (health, checks, bs1, ws1) = cluster_phase r a in
      case (if custom_commands r \<noteq> [] then run_multiple a else Inr []) of
        Inl e \<Rightarrow> Inl e
      | Inr cmd_results \<Rightarrow>
          (let bs2 = collect_commands cmd_results bs1 in
           case (if check_clients r \<and> runner_clients r \<noteq> [] then check_all_clients a
                 else Inr []) of
             Inl e \<Rightarrow> Inl e
           | Inr results \<Rightarrow>
               (let (online, excluded, ws3) = collect_clients results (0, [], ws1);
                    (status, proceed, msg) = verdict bs2 ws3
                in Inr \<lparr> overall_status = status,
                         can_proceed = proceed,
                         cluster_health = health,
                         cluster_checks = checks,
                         clients_total = length (runner_clients r),
                         clients_online = online,
                         clients_offline = int (length (runner_clients r)) - int online,
                         client_results = results,
                         excluded_clients = excluded,
                         custom_command_results = cmd_results,
                         network_baseline =
                           (if check_network r then Some ''Not implemented'' else None),
                         warnings = ws3,
                         blocking_issues = bs2,
                         proceed_message = msg \<rparr>)))"

section \<open>Workload model: \<open>IOConfig\<close> and its validator\<close>

datatype IOPattern = RANDOM | SEQUENTIAL | MIXED

record IOConfig =
  pattern :: IOPattern
  block_size :: string
  read_percent :: int
  write_percent :: int
  io_depth :: int
  num_jobs :: int
  direct_io :: bool
  verify_data :: bool
  sync_io :: bool

text \<open>
  \<open>validate_rw_percent(cls, v, info)\<close>: \<open>v\<close> is the supplied write percentage, and
  \<open>info.data\<close> holds the fields validated before it; \<open>read_percent\<close> is there only when
  its own range check passed, otherwise the validator reads the fallback 100.
\<close>

definition validate_rw_percent :: "int \<Rightarrow> int option \<Rightarrow> int" where
  "validate_rw_percent v data_read_percent =
     (let read_pct = (case data_read_percent of None \<Rightarrow> 100 | Some r \<Rightarrow> r)
      in if read_pct + v \<noteq> 100 then 100 - read_pct else v)"

datatype model_error = ValidationError

text \<open>
  Constructing an \<open>IOConfig\<close> from the two percentages, every other field at its default.
  A field given as \<open>None\<close> is omitted by the caller and takes its declared default
  (100 for reads, 0 for writes). Each supplied field is checked against \<open>ge=0, le=100\<close>;
  the field validator is attached to \<open>write_percent\<close> and the validation library runs a
  field validator on supplied values only, not on a default that fills an omitted field.
\<close>

definition percent_ok :: "int \<Rightarrow> bool" where
  "percent_ok x \<longleftrightarrow> 0 \<le> x \<and> x \<le> 100"

definition IOConfig_new :: "int option \<Rightarrow> int option \<Rightarrow> model_error + IOConfig" where
  "IOConfig_new read_arg write_arg =
     (let read_valid = (case read_arg of None \<Rightarrow> True | Some r \<Rightarrow> percent_ok r);
          read_val = (case read_arg of None \<Rightarrow> 100 | Some r \<Rightarrow> r);
          data_read = (if read_valid then Some read_val else None);
          write_valid = (case write_arg of None \<Rightarrow> True | Some w \<Rightarrow> percent_ok w);
          write_val = (case write_arg of None \<Rightarrow> 0
                       | Some w \<Rightarrow> validate_rw_percent w data_read)
      in if read_valid \<and> write_valid then
           Inr \<lparr> pattern = RANDOM, block_size = ''4k'', read_percent = read_val,
                 write_percent = write_val, io_depth = 32, num_jobs = 1, direct_io = True,
                 verify_data = False, sync_io = False \<rparr>
         else Inl ValidationError)"

section \<open>The FIO command line: \<open>WorkloadExecutor._build_fio_command\<close>\<close>

text \<open>
  The two dictionaries the builder reads with \<open>.get(key, default)\<close>; \<open>None\<close> is an absent
  key.
\<close>

record io_dict =
  io_pattern :: "string option"
  io_block_size :: "string option"
  io_read_percent :: "int option"
  io_io_depth :: "int option"
  io_num_jobs :: "int option"
  io_direct_io :: "bool option"

record test_dict =
  test_duration :: "int option"
  test_ramp_time :: "int option"
  test_file_size :: "string option"

definition get_or :: "'a option \<Rightarrow> 'a \<Rightarrow> 'a" where
  "get_or v d = (case v of None \<Rightarrow> d | Some x \<Rightarrow> x)"

text \<open>Lines 633-639.\<close>

definition fio_rw :: "string \<Rightarrow> int \<Rightarrow> string" where
  "fio_rw pat read_pct =
     (if read_pct = 100 then (if pat = ''random'' then ''randread'' else ''read'')
      else if read_pct = 0 then (if pat = ''random'' then ''randwrite'' else ''write'')
      else (if pat = ''random'' then ''randrw'' else ''rw''))"

text \<open>Lines 641-667: the argument list \<open>fio_args\<close>.\<close>

definition fio_args :: "io_dict \<Rightarrow> test_dict \<Rightarrow> string \<Rightarrow> string \<Rightarrow> string \<Rightarrow> string list" where
  "fio_args io_config test_config directory execution_id client_id =
     (let pat = get_or (io_pattern io_config) ''random'';
          bs = get_or (io_block_size io_config) ''4k'';
          read_pct = get_or (io_read_percent io_config) 100;
          depth = get_or (io_io_depth io_config) 32;
          jobs = get_or (io_num_jobs io_config) 1;
          direct = get_or (io_direct_io io_config) True;
          duration = get_or (test_duration test_config) 60;
          ramp_time = get_or (test_ramp_time test_config) 0;
          file_size = get_or (test_file_size test_config) ''1G'';
          rw = fio_rw pat read_pct
      in [''fio'',
          ''--name=scale_test_'' @ client_id,
          ''--directory='' @ directory,
          ''--rw='' @ rw,
          ''--bs='' @ bs,
          ''--size='' @ file_size,
          ''--numjobs='' @ str_int jobs,
          ''--iodepth='' @ str_int depth,
          ''--runtime='' @ str_int duration,
          ''--time_based'',
          ''--group_reporting'',
          ''--output-format=json'']
         @ (if rw \<in> set [''randrw'', ''rw''] then [''--rwmixread='' @ str_int read_pct] else [])
         @ (if direct then [''--direct=1''] else [])
         @ (if ramp_time > 0 then [''--ramp_time='' @ str_int ramp_time] else [])
         @ [''--ioengine=libaio'', ''--end_fsync=1''])"

definition build_fio_command :: "io_dict \<Rightarrow> test_dict \<Rightarrow> string \<Rightarrow> string \<Rightarrow> string \<Rightarrow> string" where
  "build_fio_command io_config test_config directory execution_id client_id =
     join_str '' '' (fio_args io_config test_config directory execution_id client_id)"

section \<open>Metrics reads: \<open>DataStore.read_metrics\<close> and the limit of \<open>get_metrics\<close>\<close>

datatype py_error = ZeroDivisionError | ValueError

text \<open>
  One line of \<open>aggregate.jsonl\<close>: its timestamp (the clock as an integer) and the rest of
  the sample.
\<close>

record 'a sample =
  ts :: int
  body :: 'a

text \<open>
  \<open>read_metrics\<close> keeps the lines of the file in file order and drops those outside the
  optional bounds.
\<close>

definition read_metrics :: "'a sample list \<Rightarrow> int option \<Rightarrow> int option \<Rightarrow> 'a sample list" where
  "read_metrics file start_time end_time =
     filter (\<lambda>m. (case start_time of None \<Rightarrow> True | Some lo \<Rightarrow> \<not> ts m < lo) \<and>
                  (case end_time of None \<Rightarrow> True | Some hi \<Rightarrow> \<not> ts m > hi)) file"

text \<open>Every \<open>k\<close>-th element, starting with the first.\<close>

fun every_nth :: "nat \<Rightarrow> 'a list \<Rightarrow> 'a list" where
  "every_nth k [] = []"
| "every_nth k (x # xs) = x # every_nth k (drop (k - 1) xs)"

text \<open>
  \<open>xs[::step]\<close>: a zero step raises \<open>ValueError\<close>, a negative step walks back from the last
  element.
\<close>

definition py_stride :: "int \<Rightarrow> 'a list \<Rightarrow> py_error + 'a list" where
  "py_stride step xs =
     (if step = 0 then Inl ValueError
      else if 0 < step then Inr (every_nth (nat step) xs)
      else Inr (every_nth (nat (- step)) (rev xs)))"

text \<open>
  Lines 41-45 of \<open>get_metrics\<close>. \<open>//\<close> rounds to minus infinity, as \<open>div\<close> on \<open>int\<close>
  does; a zero limit divides by zero.
\<close>

definition apply_limit :: "int \<Rightarrow> 'a list \<Rightarrow> py_error + 'a list" where
  "apply_limit limit metrics =
     (if int (length metrics) > limit then
        (if limit = 0 then Inl ZeroDivisionError
         else (case py_stride (int (length metrics) div limit) metrics of
                 Inl e \<Rightarrow> Inl e
               | Inr sampled \<Rightarrow> Inr (py_take limit sampled)))
      else Inr metrics)"

definition get_metrics ::
  "'a sample list \<Rightarrow> int option \<Rightarrow> int option \<Rightarrow> int \<Rightarrow> py_error + 'a sample list" where
  "get_metrics file start_time end_time limit =
     apply_limit limit (read_metrics file start_time end_time)"

section \<open>Execution records: \<open>DataStore.update_execution_status\<close>\<close>

datatype sqlval = Null | Text string | Integer int | Float real

type_synonym row = "string \<rightharpoonup> sqlval"

datatype db_error = TypeError | OperationalError | IntegrityError

text \<open>The columns of table \<open>executions\<close>, from the schema.\<close>

definition executions_columns :: "string list" where
  "executions_columns =
     [''id'', ''name'', ''status'', ''workload_type'', ''storage_backend'', ''cluster_name'',
      ''started_at'', ''completed_at'', ''duration_seconds'', ''client_count'', ''total_iops'',
      ''avg_latency_us'', ''total_throughput_mbps'', ''config_path'', ''metrics_path'',
      ''report_path'', ''error_message'', ''network_baseline'', ''created_at'']"

text \<open>
  \<open>kwargs\<close> is a dictionary in insertion order. \<open>kwargs[k] = v\<close> overwrites the entry of an
  existing key in place and appends a new key at the end.
\<close>

type_synonym kwargs = "(string \<times> sqlval) list"

definition dict_set :: "string \<Rightarrow> sqlval \<Rightarrow> kwargs \<Rightarrow> kwargs" where
  "dict_set k v kw =
     (if k \<in> set (map fst kw) then map (\<lambda>(k', v'). if k' = k then (k', v) else (k', v')) kw
      else kw @ [(k, v)])"

text \<open>
  \<open>UPDATE executions SET c1 = ?, c2 = ?, ... WHERE id = ?\<close>: a column that is not in the
  schema is an error; every row whose \<open>id\<close> matches gets the assignments, the rightmost
  one winning for a repeated column; a table left with two rows of one \<open>id\<close> that is not
  null violates the primary key and the statement is undone.
\<close>

definition apply_assignments :: "kwargs \<Rightarrow> row \<Rightarrow> row" where
  "apply_assignments assigns r = fold (\<lambda>(k, v) r'. r'(k \<mapsto> v)) assigns r"

definition primary_key_ok :: "row list \<Rightarrow> bool" where
  "primary_key_ok table =
     distinct (filter (\<lambda>v. v \<noteq> None \<and> v \<noteq> Some Null) (map (\<lambda>r. r ''id'') table))"

definition sql_update :: "kwargs \<Rightarrow> string \<Rightarrow> row list \<Rightarrow> db_error + row list" where
  "sql_update assigns execution_id table =
     (if \<not> list_all (\<lambda>(k, v). k \<in> set executions_columns) assigns then Inl OperationalError
      else
        (let table' = map (\<lambda>r. if r ''id'' = Some (Text execution_id)
                                 then apply_assignments assigns r else r) table
         in if primary_key_ok table' then Inr table'
            else Inl IntegrityError))"

text \<open>
  \<open>update_execution_status(execution_id, status, **kwargs)\<close>, with the clock reading
  \<open>now\<close>. A keyword named like one of the two positional parameters is rejected by the
  call itself.
\<close>

definition update_execution_status ::
  "string \<Rightarrow> row list \<Rightarrow> string \<Rightarrow> string \<Rightarrow> kwargs \<Rightarrow> db_error + row list" where
  "update_execution_status now table execution_id status kwargs =
     (if ''status'' \<in> set (map fst kwargs) \<or> ''execution_id'' \<in> set (map fst kwargs)
      then Inl TypeError
      else
        (let kw1 = (if status = ''running'' \<and> ''started_at'' \<notin> set (map fst kwargs)
                    then dict_set ''started_at'' (Text now) kwargs else kwargs);
             kw2 = (if status \<in> set [''completed'', ''failed'', ''cancelled'']
                    then dict_set ''completed_at'' (Text now) kw1 else kw1)
         in sql_update ((''status'', Text status) # kw2) execution_id table))"

text \<open>What one accepted call assigns to a matching row, column by column.\<close>

definition assigned :: "string \<Rightarrow> string \<Rightarrow> kwargs \<Rightarrow> kwargs" where
  "assigned now status kwargs =
     (''status'', Text status) #
     (let kw1 = (if status = ''running'' \<and> ''started_at'' \<notin> set (map fst kwargs)
                 then dict_set ''started_at'' (Text now) kwargs else kwargs)
      in if status \<in> set [''completed'', ''failed'', ''cancelled'']
         then dict_set ''completed_at'' (Text now) kw1 else kw1)"

section \<open>The execution engine: \<open>ExecutionEngine.run_execution\<close>\<close>

datatype ExecutionStatus =
  PENDING | PRECHECKS | PREPARING | RUNNING | PAUSED | STOPPING | COMPLETED | FAILED | CANCELLED

datatype ExecutionPhase =
  INIT | PRECHECK | PREPARE | RAMP_UP | STEADY_STATE | RAMP_DOWN | CLEANUP | DONE

subsection \<open>The workload dictionary\<close>

text \<open>
  The keys of \<open>workload_config\<close> the engine reads, each with the default its \<open>.get\<close>
  names already applied. A mount dictionary that is absent or empty is \<open>None\<close> (the
  engine only tests its truth value).
\<close>

record precheck_options =
  opt_cluster_health :: bool
  opt_client_health :: bool
  opt_network_baseline :: bool
  opt_custom_commands :: "string list"

datatype client_selection =
  ModeAll | ModeCount "int option" | ModeSpecific "string list" | ModeOther

record mount_dict =
  filesystem_type :: string
  auto_unmount :: bool
  mount_point :: string

record workload_config =
  wc_prechecks :: precheck_options
  wc_clients :: client_selection
  wc_tool :: string
  wc_storage_type :: string
  wc_mount :: "mount_dict option"
  wc_io :: io_dict
  wc_test :: test_dict

subsection \<open>Metrics\<close>

text \<open>
  What \<open>_parse_fio_results\<close> hands back, as far as the engine reads it; \<open>None\<close> is the
  empty dictionary. Python floats are taken as reals.
\<close>

record fio_metrics =
  iops_t :: int
  bw_mbps_t :: real
  lat_us_avg :: real

record client_sample =
  cs_ts :: int
  cs_client_id :: string
  cs_metrics :: fio_metrics

record aggregate =
  agg_iops_t :: int
  agg_bw_mbps_t :: real
  agg_lat_us_avg :: real
  agg_clients :: nat

record summary =
  sum_total_samples :: nat
  sum_clients :: "string list"
  sum_client_count :: nat
  sum_peak_iops :: int
  sum_peak_throughput_mbps :: real
  sum_avg_latency_us :: real

subsection \<open>The world outside the engine\<close>

text \<open>
  A task awaited through \<open>asyncio.gather(..., return_exceptions=True)\<close> yields its value
  or the exception it raised, as data.
\<close>

type_synonym 'a task_result = "string + 'a"

type_synonym run_result = "(bool \<times> string \<times> fio_metrics option) task_result"

text \<open>
  Everything the engine asks of its collaborators during one run: the inventory, the
  answers of the precheck probes, what each worker's task returns, whether publishing a
  stop event to a participant raises (\<open>Some\<close> the exception text), the clock, and during
  which phases a concurrent \<open>stop_execution\<close> call arrives. The data store itself is
  taken to succeed.
\<close>

record world =
  get_clients :: "client list"
  cluster_config_error :: "string option"
  cluster_backend_is_ceph :: bool
  precheck_world :: precheck_answers
  ensure_fio_installed :: "client \<Rightarrow> (bool \<times> string) task_result"
  install_ceph_common :: "client \<Rightarrow> (bool \<times> string) task_result"
  mount_filesystem :: "client \<Rightarrow> (bool \<times> string) task_result"
  run_fio :: "client \<Rightarrow> run_result"
  run_fill_cluster :: "client \<Rightarrow> run_result"
  publish_to_agent :: "client \<Rightarrow> string option"
  stop_requested_during :: "ExecutionPhase \<Rightarrow> bool"
  utcnow :: "nat \<Rightarrow> int"

subsection \<open>The engine's state and its effects\<close>

datatype remote_cmd =
    ProbeClient client
  | EnsureFio client
  | InstallCephCommon client
  | MountFilesystem client
  | RunFio client string
  | RunFillCluster client
  | UnmountFilesystem client string
  | CleanupClient client

text \<open>The commands that install the tool, mount, or run the benchmark.\<close>

fun is_benchmark_cmd :: "remote_cmd \<Rightarrow> bool" where
  "is_benchmark_cmd (ProbeClient c) = False"
| "is_benchmark_cmd (EnsureFio c) = True"
| "is_benchmark_cmd (InstallCephCommon c) = True"
| "is_benchmark_cmd (MountFilesystem c) = True"
| "is_benchmark_cmd (RunFio c cmd) = True"
| "is_benchmark_cmd (RunFillCluster c) = True"
| "is_benchmark_cmd (UnmountFilesystem c mp) = False"
| "is_benchmark_cmd (CleanupClient c) = False"

datatype engine_exc = PrechecksFailed "string list" | NoClientsAvailable | Raised string

datatype log_line =
    LogExecutionFailed engine_exc
  | LogFioInstallFailed "string list"
  | LogMountFailed "string list"
  | LogFioFailed string string
  | LogFioIssue string string

record status_update =
  su_status :: ExecutionStatus
  su_error_message :: "engine_exc option"
  su_client_count :: "nat option"
  su_totals :: "(int \<times> real \<times> real) option"

text \<open>\<open>self._active_executions[execution_id]\<close>: the keys the engine writes.\<close>

record active_execution =
  ae_phase :: ExecutionPhase
  ae_clients :: "client list"
  ae_client_ids :: "string list option"
  ae_excluded_clients :: "string list option"

text \<open>
  The engine's three dictionaries at the key of the one execution followed here, the files
  and the record of that execution in the data store (the record as the sequence of its
  status updates), the commands sent to workers, and the stop events published.
\<close>

record engine =
  active_executions :: "active_execution option"
  stop_flags :: "bool option"
  pause_flags :: "bool option"
  status_updates :: "status_update list"
  execution_log :: "log_line list"
  precheck_report_file :: "PrecheckReport option"
  client_metrics_files :: "string \<Rightarrow> client_sample list"
  aggregate_file :: "aggregate sample list"
  summary_file :: "summary option"
  remote_commands :: "remote_cmd list"
  published_stops :: "client list"

type_synonym 'a raising = "(engine_exc + 'a) \<times> engine"

definition set_status :: "ExecutionStatus \<Rightarrow> engine \<Rightarrow> engine" where
  "set_status st s =
     s\<lparr>status_updates := status_updates s @
          [\<lparr>su_status = st, su_error_message = None, su_client_count = None,
            su_totals = None\<rparr>]\<rparr>"

definition write_log :: "log_line \<Rightarrow> engine \<Rightarrow> engine" where
  "write_log l s = s\<lparr>execution_log := execution_log s @ [l]\<rparr>"

definition send_all :: "remote_cmd list \<Rightarrow> engine \<Rightarrow> engine" where
  "send_all cmds s = s\<lparr>remote_commands := remote_commands s @ cmds\<rparr>"

definition update_state :: "ExecutionPhase \<Rightarrow> engine \<Rightarrow> engine" where
  "update_state ph s =
     (case active_executions s of
        None \<Rightarrow> s
      | Some a \<Rightarrow> s\<lparr>active_executions := Some (a\<lparr>ae_phase := ph\<rparr>)\<rparr>)"

definition cleanup_execution :: "engine \<Rightarrow> engine" where
  "cleanup_execution s = s\<lparr>active_executions := None, stop_flags := None, pause_flags := None\<rparr>"

definition stop_execution :: "engine \<Rightarrow> engine" where
  "stop_execution s = s\<lparr>stop_flags := Some True\<rparr>"

text \<open>
  A \<open>stop_execution\<close> call can only run while \<open>run_execution\<close> is suspended at an
  \<open>await\<close>. No phase reads the flag, so a call arriving during a phase is placed at that
  phase's first \<open>await\<close>.
\<close>

definition arrivals :: "world \<Rightarrow> ExecutionPhase \<Rightarrow> engine \<Rightarrow> engine" where
  "arrivals w ph s = (if stop_requested_during w ph then stop_execution s else s)"

definition the_clients :: "engine \<Rightarrow> client list" where
  "the_clients s = (case active_executions s of None \<Rightarrow> [] | Some a \<Rightarrow> ae_clients a)"

definition set_clients :: "client list \<Rightarrow> engine \<Rightarrow> engine" where
  "set_clients cs s =
     (case active_executions s of
        None \<Rightarrow> s
      | Some a \<Rightarrow> s\<lparr>active_executions := Some (a\<lparr>ae_clients := cs\<rparr>)\<rparr>)"

subsection \<open>Sequencing code that may raise\<close>

definition bind_r :: "'a raising \<Rightarrow> ('a \<Rightarrow> engine \<Rightarrow> 'b raising) \<Rightarrow> 'b raising" where
  "bind_r m f = (case m of (Inl e, s) \<Rightarrow> (Inl e, s) | (Inr x, s) \<Rightarrow> f x s)"

subsection \<open>Phase 1: \<open>_run_prechecks_phase\<close>\<close>

definition make_runner :: "world \<Rightarrow> workload_config \<Rightarrow> PrecheckRunner" where
  "make_runner w wc =
     \<lparr> check_cluster = opt_cluster_health (wc_prechecks wc),
       check_clients = opt_client_health (wc_prechecks wc),
       check_network = opt_network_baseline (wc_prechecks wc),
       custom_commands = opt_custom_commands (wc_prechecks wc),
       runner_clients = get_clients w,
       backend_is_ceph = cluster_backend_is_ceph w \<rparr>"

text \<open>
  The only traffic the runner sends to workers: \<open>check_all_clients\<close> probes every worker
  of the inventory, when the run gets that far.
\<close>

definition precheck_probes :: "PrecheckRunner \<Rightarrow> precheck_answers \<Rightarrow> remote_cmd list" where
  "precheck_probes r a =
     (case (if custom_commands r \<noteq> [] then run_multiple a else Inr []) of
        Inl e \<Rightarrow> []
      | Inr cmd_results \<Rightarrow>
          (if check_clients r \<and> runner_clients r \<noteq> [] then map ProbeClient (runner_clients r)
           else []))"

definition run_prechecks_phase :: "world \<Rightarrow> workload_config \<Rightarrow> engine \<Rightarrow> unit raising" where
  "run_prechecks_phase w wc s0 =
     (let s1 = update_state PRECHECK (set_status PRECHECKS s0) in
      case cluster_config_error w of
        Some e \<Rightarrow> (Inl (Raised e), s1)
      | None \<Rightarrow>
          (let runner = make_runner w wc;
               s2 = send_all (precheck_probes runner (precheck_world w)) s1
           in case run_all_prechecks runner (precheck_world w) of
                Inl e \<Rightarrow> (Inl (Raised e), s2)
              | Inr report \<Rightarrow>
                  (let s3 = s2\<lparr>precheck_report_file := Some report\<rparr> in
                   if \<not> can_proceed report
                   then (Inl (PrechecksFailed (blocking_issues report)), s3)
                   else (Inr (),
                         s3\<lparr>active_executions :=
                              map_option (\<lambda>a. a\<lparr>ae_excluded_clients :=
                                                     Some (excluded_clients report)\<rparr>)
                                (active_executions s3)\<rparr>))))"

subsection \<open>Phase 2: \<open>_run_prepare_phase\<close>\<close>

text \<open>Lines 172-181.\<close>

definition select_clients :: "client_selection \<Rightarrow> client list \<Rightarrow> client list" where
  "select_clients sel available_clients =
     (case sel of
        ModeAll \<Rightarrow> available_clients
      | ModeCount None \<Rightarrow> available_clients
      | ModeCount (Some n) \<Rightarrow> py_take n available_clients
      | ModeSpecific ids \<Rightarrow> filter (\<lambda>c. cl_id c \<in> set ids) available_clients
      | ModeOther \<Rightarrow> available_clients)"

text \<open>\<open>WorkloadExecutor.ensure_fio_on_clients\<close>: one triple per client, in order.\<close>

definition ensure_fio_on_clients :: "world \<Rightarrow> client list \<Rightarrow> (string \<times> bool \<times> string) list" where
  "ensure_fio_on_clients w clients =
     map (\<lambda>c. case ensure_fio_installed w c of
                 Inl e \<Rightarrow> (cl_id c, False, e)
               | Inr (ok, msg) \<Rightarrow> (cl_id c, ok, msg)) clients"

text \<open>
  Lines 193-208. The result is the local variable \<open>selected_clients\<close> after the step; the
  engine's dictionary is not written here.
\<close>

definition fio_step :: "world \<Rightarrow> client list \<Rightarrow> engine \<Rightarrow> client list \<times> engine" where
  "fio_step w selected_clients s =
     (let fio_results = ensure_fio_on_clients w selected_clients;
          s1 = send_all (map EnsureFio selected_clients) s;
          fio_failed = map fst (filter (\<lambda>(cid, ok, msg). \<not> ok) fio_results)
      in if fio_failed \<noteq> []
         then (filter (\<lambda>c. cl_id c \<notin> set fio_failed) selected_clients,
               write_log (LogFioInstallFailed fio_failed) s1)
         else (selected_clients, s1))"

definition mount_failed :: "world \<Rightarrow> client \<Rightarrow> bool" where
  "mount_failed w c = (case mount_filesystem w c of Inl e \<Rightarrow> True | Inr (ok, msg) \<Rightarrow> \<not> ok)"

text \<open>Lines 214-261.\<close>

definition mount_step :: "world \<Rightarrow> mount_dict \<Rightarrow> client list \<Rightarrow> engine \<Rightarrow> engine" where
  "mount_step w m selected_clients s =
     (let s1 = (if filesystem_type m = ''cephfs''
                then send_all (map InstallCephCommon selected_clients) s else s);
          s2 = send_all (map MountFilesystem selected_clients) s1;
          failed_mounts = map cl_id (filter (mount_failed w) selected_clients)
      in if failed_mounts \<noteq> []
         then set_clients (filter (\<lambda>c. cl_id c \<notin> set failed_mounts) selected_clients)
                (write_log (LogMountFailed failed_mounts) s2)
         else s2)"

definition run_prepare_phase :: "world \<Rightarrow> workload_config \<Rightarrow> engine \<Rightarrow> unit raising" where
  "run_prepare_phase w wc s0 =
     (let s1 = update_state PREPARE (set_status PREPARING s0);
          clients = get_clients w;
          excluded = (case active_executions s1 of
                        None \<Rightarrow> []
                      | Some a \<Rightarrow> get_or (ae_excluded_clients a) []);
          available_clients = filter (\<lambda>c. cl_id c \<notin> set excluded) clients;
          selected_clients = select_clients (wc_clients wc) available_clients
      in if selected_clients = [] then (Inl NoClientsAvailable, s1)
         else
           (let s2 = s1\<lparr>active_executions :=
                        map_option (\<lambda>a. a\<lparr>ae_clients := selected_clients,
                                          ae_client_ids := Some (map cl_id selected_clients)\<rparr>)
                          (active_executions s1)\<rparr>;
                (selected2, s3) = (if wc_tool wc = ''fio'' then fio_step w selected_clients s2
                                   else (selected_clients, s2));
                s4 = (case wc_mount wc of
                        None \<Rightarrow> s3
                      | Some m \<Rightarrow> if wc_storage_type wc = ''file''
                                  then mount_step w m selected2 s3 else s3)
            in (Inr (),
                s4\<lparr>status_updates := status_updates s4 @
                     [\<lparr>su_status = PREPARING, su_error_message = None,
                       su_client_count = Some (length (the_clients s4)),
                       su_totals = None\<rparr>]\<rparr>)))"

subsection \<open>Phase 3: \<open>_run_execution_phase\<close>\<close>

definition append_client_metrics :: "string \<Rightarrow> client_sample \<Rightarrow> engine \<Rightarrow> engine" where
  "append_client_metrics cid m s =
     s\<lparr>client_metrics_files := (client_metrics_files s)(cid := client_metrics_files s cid @ [m])\<rparr>"

text \<open>
  The body of the loop over the gathered results (lines 355-384) for the result \<open>r\<close> of
  client \<open>c\<close> at position \<open>i\<close>. The accumulator is (total IOPS, total throughput, total
  latency, latency count) and the engine.
\<close>

definition process_one ::
  "(nat \<Rightarrow> int) \<Rightarrow> nat \<Rightarrow> client \<Rightarrow> run_result
     \<Rightarrow> (int \<times> real \<times> real \<times> nat) \<times> engine \<Rightarrow> (int \<times> real \<times> real \<times> nat) \<times> engine" where
  "process_one clock i c r acc =
     (case acc of ((t_iops, t_bw, t_lat, n_lat), s) \<Rightarrow>
        (case r of
           Inl e \<Rightarrow> ((t_iops, t_bw, t_lat, n_lat), write_log (LogFioFailed (cl_id c) e) s)
         | Inr (success, message, metrics) \<Rightarrow>
             (case (if success then metrics else None) of
                Some m \<Rightarrow>
                  ((t_iops + iops_t m, t_bw + bw_mbps_t m,
                    (if lat_us_avg m > 0 then t_lat + lat_us_avg m else t_lat),
                    (if lat_us_avg m > 0 then n_lat + 1 else n_lat)),
                   append_client_metrics (cl_id c)
                     \<lparr>cs_ts = clock i, cs_client_id = cl_id c, cs_metrics = m\<rparr> s)
              | None \<Rightarrow>
                  ((t_iops, t_bw, t_lat, n_lat),
                   write_log (LogFioIssue (cl_id c) message) s))))"

fun process_results ::
  "(nat \<Rightarrow> int) \<Rightarrow> nat \<Rightarrow> (client \<times> run_result) list
     \<Rightarrow> (int \<times> real \<times> real \<times> nat) \<times> engine \<Rightarrow> (int \<times> real \<times> real \<times> nat) \<times> engine" where
  "process_results clock i [] acc = acc"
| "process_results clock i ((c, r) # rest) acc =
     process_results clock (i + 1) rest (process_one clock i c r acc)"

text \<open>The directory \<open>run_fio\<close> hands to the command builder.\<close>

definition fio_directory :: "workload_config \<Rightarrow> string" where
  "fio_directory wc = (case wc_mount wc of None \<Rightarrow> ''/tmp/fio_test'' | Some m \<Rightarrow> mount_point m)"

text \<open>The tasks handed to \<open>gather\<close> (lines 326-344) and their results (line 347).\<close>

definition run_tasks :: "workload_config \<Rightarrow> string \<Rightarrow> client list \<Rightarrow> remote_cmd list" where
  "run_tasks wc execution_id clients =
     (if wc_tool wc = ''fill_cluster'' then map RunFillCluster clients
      else map (\<lambda>c. RunFio c (build_fio_command (wc_io wc) (wc_test wc) (fio_directory wc)
                                execution_id (cl_id c))) clients)"

definition gather_run :: "world \<Rightarrow> workload_config \<Rightarrow> client list \<Rightarrow> run_result list" where
  "gather_run w wc clients =
     (if wc_tool wc = ''fill_cluster'' then map (run_fill_cluster w) clients
      else map (run_fio w) clients)"

definition run_execution_phase ::
  "world \<Rightarrow> workload_config \<Rightarrow> string \<Rightarrow> engine \<Rightarrow> unit raising" where
  "run_execution_phase w wc execution_id s0 =
     (let s1 = update_state STEADY_STATE (set_status RUNNING s0);
          clients = the_clients s1
      in if clients = [] then (Inl NoClientsAvailable, s1)
         else
           (let s2 = send_all (run_tasks wc execution_id clients) s1;
                results = gather_run w wc clients;
                ((total_iops, total_throughput, total_latency, latency_count), s3) =
                   process_results (utcnow w) 0 (zip clients results) ((0, 0, 0, 0), s2);
                avg_latency = (if latency_count > 0 then total_latency / real latency_count
                               else 0);
                s4 = s3\<lparr>aggregate_file := aggregate_file s3 @
                          [\<lparr>ts = utcnow w (length clients),
                            body = \<lparr>agg_iops_t = total_iops, agg_bw_mbps_t = total_throughput,
                                    agg_lat_us_avg = avg_latency,
                                    agg_clients = length clients\<rparr>\<rparr>]\<rparr>
            in (Inr (),
                s4\<lparr>status_updates := status_updates s4 @
                     [\<lparr>su_status = RUNNING, su_error_message = None, su_client_count = None,
                       su_totals = Some (total_iops, total_throughput, avg_latency)\<rparr>]\<rparr>)))"

subsection \<open>Phase 4: \<open>_run_cleanup_phase\<close>\<close>

text \<open>Lines 455-482: the summary computed from the aggregate file.\<close>

definition summarise :: "aggregate sample list \<Rightarrow> client list \<Rightarrow> summary" where
  "summarise metrics clients =
     (let total_iops = fold (\<lambda>m acc. max acc (agg_iops_t (body m))) metrics 0;
          total_throughput = fold (\<lambda>m acc. max acc (agg_bw_mbps_t (body m))) metrics 0;
          lats = filter (\<lambda>l. l > 0) (map (\<lambda>m. agg_lat_us_avg (body m)) metrics);
          avg_latency = (if length lats > 0 then sum_list lats / real (length lats) else 0)
      in \<lparr> sum_total_samples = length metrics,
            sum_clients = map cl_id clients,
            sum_client_count = length clients,
            sum_peak_iops = total_iops,
            sum_peak_throughput_mbps = total_throughput,
            sum_avg_latency_us = avg_latency \<rparr>)"

definition run_cleanup_phase :: "world \<Rightarrow> workload_config \<Rightarrow> engine \<Rightarrow> engine" where
  "run_cleanup_phase w wc s0 =
     (let s1 = update_state CLEANUP s0;
          clients = the_clients s1;
          s2 = (case wc_mount wc of
                  None \<Rightarrow> s1
                | Some m \<Rightarrow>
                    if wc_storage_type wc = ''file'' \<and> auto_unmount m
                    then send_all (map (\<lambda>c. UnmountFilesystem c (mount_point m)) clients) s1
                    else s1);
          s3 = send_all (map CleanupClient clients) s2;
          metrics = read_metrics (aggregate_file s3) None None
      in update_state DONE (s3\<lparr>summary_file := Some (summarise metrics clients)\<rparr>))"

subsection \<open>Stopping: \<open>stop_execution\<close>, \<open>_handle_stopped\<close> and the checkpoints\<close>

text \<open>
  The loop of \<open>_handle_stopped\<close> publishes one stop event per entry of the participant
  list; the first publication that raises ends the loop, and the exception leaves
  \<open>_handle_stopped\<close>.
\<close>

fun publish_stops :: "world \<Rightarrow> client list \<Rightarrow> engine \<Rightarrow> unit raising" where
  "publish_stops w [] s = (Inr (), s)"
| "publish_stops w (c # cs) s =
     (case publish_to_agent w c of
        Some e \<Rightarrow> (Inl (Raised e), s)
      | None \<Rightarrow> publish_stops w cs (s\<lparr>published_stops := published_stops s @ [c]\<rparr>))"

definition handle_stopped :: "world \<Rightarrow> engine \<Rightarrow> unit raising" where
  "handle_stopped w s0 =
     (let s1 = set_status CANCELLED s0 in
      bind_r (publish_stops w (the_clients s1) s1) (\<lambda>u s2. (Inr (), cleanup_execution s2)))"

text \<open>
  The test after phase 1 and after phase 2 (lines 61-63 and 68-70). The result says
  whether \<open>run_execution\<close> returns here.
\<close>

definition checkpoint :: "world \<Rightarrow> engine \<Rightarrow> bool raising" where
  "checkpoint w s =
     (if stop_flags s = Some True
      then bind_r (handle_stopped w s) (\<lambda>u s'. (Inr True, s'))
      else (Inr False, s))"

subsection \<open>\<open>run_execution\<close>\<close>

definition initial_execution :: active_execution where
  "initial_execution =
     \<lparr> ae_phase = INIT, ae_clients = [], ae_client_ids = None, ae_excluded_clients = None \<rparr>"

text \<open>Phases 3 and 4 and the final status (lines 72-81): no test of the stop flag here.\<close>

definition run_and_complete ::
  "world \<Rightarrow> workload_config \<Rightarrow> string \<Rightarrow> engine \<Rightarrow> unit raising" where
  "run_and_complete w wc execution_id s3 =
     bind_r (run_execution_phase w wc execution_id (arrivals w STEADY_STATE s3))
       (\<lambda>u s4.
          (Inr (), set_status COMPLETED (run_cleanup_phase w wc (arrivals w CLEANUP s4))))"

text \<open>The body of the \<open>try\<close> (lines 57-83).\<close>

definition try_block ::
  "world \<Rightarrow> workload_config \<Rightarrow> string \<Rightarrow> bool \<Rightarrow> engine \<Rightarrow> unit raising" where
  "try_block w wc execution_id run_prechecks s =
     bind_r (if run_prechecks
             then bind_r (run_prechecks_phase w wc (arrivals w PRECHECK s))
                    (\<lambda>u s'. checkpoint w s')
             else (Inr False, s))
       (\<lambda>returned s1.
          if returned then (Inr (), s1)
          else
            bind_r (run_prepare_phase w wc (arrivals w PREPARE s1))
              (\<lambda>u s2.
                 bind_r (checkpoint w s2)
                   (\<lambda>returned s3.
                      if returned then (Inr (), s3)
                      else run_and_complete w wc execution_id s3)))"

text \<open>The \<open>except\<close> (lines 85-93) and the \<open>finally\<close> (line 95) of \<open>run_execution\<close>.\<close>

definition except_finally :: "unit raising \<Rightarrow> engine" where
  "except_finally r =
     (case r of
        (Inl e, s') \<Rightarrow>
          cleanup_execution
            (write_log (LogExecutionFailed e)
               (s'\<lparr>status_updates := status_updates s' @
                     [\<lparr>su_status = FAILED, su_error_message = Some e,
                       su_client_count = None, su_totals = None\<rparr>]\<rparr>))
      | (Inr u, s') \<Rightarrow> cleanup_execution s')"

text \<open>Lines 44-54, then the \<open>try\<close> with its handlers.\<close>

definition run_execution ::
  "world \<Rightarrow> workload_config \<Rightarrow> string \<Rightarrow> bool \<Rightarrow> engine \<Rightarrow> engine" where
  "run_execution w wc execution_id run_prechecks s0 =
     except_finally
       (try_block w wc execution_id run_prechecks
          (s0\<lparr>active_executions := Some initial_execution,
              stop_flags := Some False, pause_flags := Some False\<rparr>))"

text \<open>An engine and a data store in which nothing has happened yet.\<close>

definition fresh_engine :: engine where
  "fresh_engine =
     \<lparr> active_executions = None, stop_flags = None, pause_flags = None,
       status_updates = [], execution_log = [], precheck_report_file = None,
       client_metrics_files = (\<lambda>cid. []), aggregate_file = [], summary_file = None,
       remote_commands = [], published_stops = [] \<rparr>"

text \<open>The status of the execution record: that of its latest update.\<close>

definition current_status :: "engine \<Rightarrow> ExecutionStatus" where
  "current_status s =
     (if status_updates s = [] then PENDING else su_status (last (status_updates s)))"

section \<open>Remote commands: \<open>SSHClient.run_command\<close> and \<open>WorkloadExecutor.run_ssh_command\<close>\<close>

text \<open>
  Starting a subprocess on the controller host and waiting for it either raises (the
  executable is missing, the wait times out, anything else) or ends with an exit code
  and the two decoded output streams. \<open>Raises k t\<close> carries \<open>str(e)\<close> in \<open>t\<close>.
\<close>

datatype exc_kind = FileNotFoundError | TimeoutError | OtherException

datatype spawn_result = Raises exc_kind string | Exited int string string

record controller =
  spawn :: "string list \<Rightarrow> spawn_result"
  path_exists :: "string \<Rightarrow> bool"

record SSHClient =
  hostname :: string
  username :: string
  private_key_path :: "string option"
  password :: "string option"
  port :: int

record SSHCommandResult =
  exit_code :: int
  stdout :: string
  stderr :: string

text \<open>The truth value of an \<open>Optional[str]\<close>: set and not empty.\<close>

definition truthy :: "string option \<Rightarrow> bool" where
  "truthy v = (case v of None \<Rightarrow> False | Some x \<Rightarrow> x \<noteq> [])"

definition build_ssh_command :: "controller \<Rightarrow> SSHClient \<Rightarrow> string \<Rightarrow> string list" where
  "build_ssh_command ctl c command =
     (let ssh_opts =
            [''-o'', ''StrictHostKeyChecking=no'',
             ''-o'', ''UserKnownHostsFile=/dev/null'',
             ''-o'', ''LogLevel=ERROR'',
             ''-o'', ''ConnectTimeout=10'',
             ''-p'', str_int (port c)]
            @ (if truthy (private_key_path c) \<and> path_exists ctl (the (private_key_path c))
               then [''-i'', the (private_key_path c)] else [])
      in if truthy (password c)
         then [''sshpass'', ''-p'', the (password c), ''ssh''] @ ssh_opts
                @ [username c @ ''@'' @ hostname c, command]
         else [''ssh''] @ ssh_opts @ [username c @ ''@'' @ hostname c, command])"

definition failed_result :: "string \<Rightarrow> SSHCommandResult" where
  "failed_result msg = \<lparr>exit_code = - 1, stdout = [], stderr = msg\<rparr>"

text \<open>
  \<open>run_command\<close>: the result, and the argument vectors it started, in order. A
  \<open>RuntimeError\<close> raised for \<open>raise_on_error\<close> is raised inside the \<open>try\<close> and caught by
  its last handler.
\<close>

definition run_command ::
  "controller \<Rightarrow> SSHClient \<Rightarrow> string \<Rightarrow> int \<Rightarrow> bool \<Rightarrow> SSHCommandResult \<times> string list list" where
  "run_command ctl c command timeout raise_on_error =
     (let ssh_cmd = build_ssh_command ctl c command in
      case spawn ctl ssh_cmd of
        Exited rc out err \<Rightarrow>
          (if raise_on_error \<and> rc \<noteq> 0
           then (failed_result (''Command failed: '' @ (if err \<noteq> [] then err else out)),
                 [ssh_cmd])
           else (\<lparr>exit_code = rc, stdout = out, stderr = err\<rparr>, [ssh_cmd]))
      | Raises TimeoutError t \<Rightarrow>
          (failed_result (''Command timed out after '' @ str_int timeout @ ''s''), [ssh_cmd])
      | Raises FileNotFoundError t \<Rightarrow>
          (if truthy (password c) \<and> ''sshpass'' \<in> set ssh_cmd then
             (let ssh_cmd2 = drop 3 ssh_cmd in
              case spawn ctl ssh_cmd2 of
                Exited rc out err \<Rightarrow>
                  (\<lparr>exit_code = rc, stdout = out, stderr = err\<rparr>, [ssh_cmd, ssh_cmd2])
              | Raises k t2 \<Rightarrow> (failed_result t2, [ssh_cmd, ssh_cmd2]))
           else (failed_result ''SSH command failed: sshpass not found for password auth'',
                 [ssh_cmd]))
      | Raises OtherException t \<Rightarrow> (failed_result t, [ssh_cmd]))"

text \<open>\<open>WorkloadExecutor.run_ssh_command\<close>, in the same terms.\<close>

definition executor_ssh_command ::
  "string \<Rightarrow> string \<Rightarrow> string \<Rightarrow> string option \<Rightarrow> string option \<Rightarrow> int \<Rightarrow> string list" where
  "executor_ssh_command host user command pw key_path prt =
     (let ssh_opts =
            [''-o'', ''StrictHostKeyChecking=no'',
             ''-o'', ''UserKnownHostsFile=/dev/null'',
             ''-o'', ''ConnectTimeout=10'',
             ''-p'', str_int prt]
            @ (if truthy key_path then [''-i'', the key_path, ''-o'', ''BatchMode=yes''] else []);
          ssh_cmd = [''ssh''] @ ssh_opts @ [user @ ''@'' @ host, command]
      in if truthy pw \<and> \<not> truthy key_path then [''sshpass'', ''-p'', the pw] @ ssh_cmd
         else ssh_cmd)"

definition run_ssh_command ::
  "controller \<Rightarrow> string \<Rightarrow> string \<Rightarrow> string \<Rightarrow> string option \<Rightarrow> string option \<Rightarrow> int
     \<Rightarrow> (int \<times> string \<times> string) \<times> string list list" where
  "run_ssh_command ctl host user command pw key_path prt =
     (let ssh_cmd = executor_ssh_command host user command pw key_path prt in
      case spawn ctl ssh_cmd of
        Exited rc out err \<Rightarrow> ((rc, out, err), [ssh_cmd])
      | Raises TimeoutError t \<Rightarrow> ((- 1, [], ''Command timed out''), [ssh_cmd])
      | Raises k t \<Rightarrow> ((- 1, [], t), [ssh_cmd]))"

section \<open>Concrete scenarios\<close>

definition worker_a :: client where
  "worker_a = \<lparr>cl_id = ''client-1'', cl_hostname = ''192.168.1.100''\<rparr>"

definition worker_b :: client where
  "worker_b = \<lparr>cl_id = ''client-2'', cl_hostname = ''192.168.1.101''\<rparr>"

text \<open>A precheck run with one failed cluster check and one unreachable worker.\<close>

definition demo_runner :: PrecheckRunner where
  "demo_runner =
     \<lparr> check_cluster = True, check_clients = True, check_network = False,
       custom_commands = [], runner_clients = [worker_a, worker_b],
       backend_is_ceph = True \<rparr>"

definition demo_answers :: precheck_answers where
  "demo_answers =
     \<lparr> get_cluster_state = Inr ''HEALTH_WARN'',
       run_all_checks =
         Inr [\<lparr>check_name = ''osd_status'', check_passed = False,
               check_severity = CRITICAL, check_message = ''2 OSDs down''\<rparr>],
       run_multiple = Inr [],
       check_all_clients =
         Inr [\<lparr>chr_client_id = ''client-1'', chr_hostname = ''192.168.1.100'',
               chr_status = ONLINE, chr_errors = []\<rparr>,
              \<lparr>chr_client_id = ''client-2'', chr_hostname = ''192.168.1.101'',
               chr_status = UNREACHABLE, chr_errors = [''timeout'']\<rparr>] \<rparr>"

text \<open>A 70/30 random workload with a five-second ramp.\<close>

definition demo_io :: io_dict where
  "demo_io =
     \<lparr> io_pattern = Some ''random'', io_block_size = Some ''4k'', io_read_percent = Some 70,
       io_io_depth = Some 32, io_num_jobs = Some 4, io_direct_io = Some True \<rparr>"

definition demo_test :: test_dict where
  "demo_test = \<lparr> test_duration = Some 60, test_ramp_time = Some 5, test_file_size = Some ''1G'' \<rparr>"

text \<open>Two execution records, the first one running.\<close>

definition demo_row1 :: row where
  "demo_row1 =
     [''id'' \<mapsto> Text ''exec-1'', ''name'' \<mapsto> Text ''nightly'', ''status'' \<mapsto> Text ''running'',
      ''started_at'' \<mapsto> Text ''2024-05-01T09:00:00'']"

definition demo_row2 :: row where
  "demo_row2 =
     [''id'' \<mapsto> Text ''exec-2'', ''name'' \<mapsto> Text ''weekly'', ''status'' \<mapsto> Text ''pending'']"

definition demo_table :: "row list" where
  "demo_table = [demo_row1, demo_row2]"

text \<open>An aggregate file of five samples, one per second.\<close>

definition demo_file :: "nat sample list" where
  "demo_file =
     [\<lparr>ts = 1, body = 10\<rparr>, \<lparr>ts = 2, body = 20\<rparr>, \<lparr>ts = 3, body = 30\<rparr>,
      \<lparr>ts = 4, body = 40\<rparr>, \<lparr>ts = 5, body = 50\<rparr>]"

text \<open>
  A block workload on all workers, with client health as the only precheck, and three
  worlds for it: one where everything succeeds, one where the FIO install fails on the
  second worker, and one where a stop request arrives while the benchmark runs.
\<close>

definition demo_wc :: workload_config where
  "demo_wc =
     \<lparr> wc_prechecks = \<lparr> opt_cluster_health = False, opt_client_health = True,
                         opt_network_baseline = False, opt_custom_commands = [] \<rparr>,
       wc_clients = ModeAll, wc_tool = ''fio'', wc_storage_type = ''block'', wc_mount = None,
       wc_io = demo_io, wc_test = demo_test \<rparr>"

definition demo_world :: world where
  "demo_world =
     \<lparr> get_clients = [worker_a, worker_b],
       cluster_config_error = None,
       cluster_backend_is_ceph = True,
       precheck_world =
         \<lparr> get_cluster_state = Inr ''HEALTH_OK'', run_all_checks = Inr [],
           run_multiple = Inr [],
           check_all_clients =
             Inr [\<lparr>chr_client_id = ''client-1'', chr_hostname = ''192.168.1.100'',
                   chr_status = ONLINE, chr_errors = []\<rparr>,
                  \<lparr>chr_client_id = ''client-2'', chr_hostname = ''192.168.1.101'',
                   chr_status = ONLINE, chr_errors = []\<rparr>] \<rparr>,
       ensure_fio_installed = (\<lambda>c. Inr (True, ''FIO already installed: fio-3.28'')),
       install_ceph_common = (\<lambda>c. Inr (True, ''ceph-common installed'')),
       mount_filesystem = (\<lambda>c. Inr (True, ''Mounted'')),
       run_fio = (\<lambda>c. Inr (True, ''FIO completed'',
                            Some \<lparr>iops_t = 1000, bw_mbps_t = 100, lat_us_avg = 100\<rparr>)),
       run_fill_cluster = (\<lambda>c. Inr (True, ''Fill completed'', None)),
       publish_to_agent = (\<lambda>c. None),
       stop_requested_during = (\<lambda>ph. False),
       utcnow = (\<lambda>i. 1000 + int i) \<rparr>"

definition demo_world_install_fails :: world where
  "demo_world_install_fails =
     demo_world\<lparr>ensure_fio_installed :=
                  (\<lambda>c. if cl_id c = ''client-2'' then Inr (False, ''Failed to install FIO: '')
                       else Inr (True, ''FIO already installed: fio-3.28''))\<rparr>"

definition demo_world_stop_while_running :: world where
  "demo_world_stop_while_running =
     demo_world\<lparr>stop_requested_during := (\<lambda>ph. ph = STEADY_STATE)\<rparr>"

text \<open>The same workload with cluster health checked, in the world of the failed check.\<close>

definition demo_wc_cluster :: workload_config where
  "demo_wc_cluster =
     demo_wc\<lparr>wc_prechecks :=
               \<lparr> opt_cluster_health = True, opt_client_health = True,
                 opt_network_baseline = False, opt_custom_commands = [] \<rparr>\<rparr>"

definition demo_world_unhealthy :: world where
  "demo_world_unhealthy = demo_world\<lparr>precheck_world := demo_answers\<rparr>"

text \<open>
  Injecting a failure into one worker's run: that worker's task raises \<open>e\<close>, every other
  task and everything else in the world is as before.
\<close>

definition inject_failure :: "client \<Rightarrow> string \<Rightarrow> world \<Rightarrow> world" where
  "inject_failure victim e w =
     w\<lparr>run_fio := (run_fio w)(victim := Inl e),
       run_fill_cluster := (run_fill_cluster w)(victim := Inl e)\<rparr>"

text \<open>The engine as the prepare phase leaves it with both workers as participants.\<close>

definition demo_prepared :: engine where
  "demo_prepared =
     fresh_engine\<lparr>active_executions :=
                    Some (initial_execution\<lparr>ae_phase := PREPARE,
                                              ae_clients := [worker_a, worker_b]\<rparr>)\<rparr>"

text \<open>
  A world where the stop request arrives during the prepare phase and publishing the stop
  event raises.
\<close>

definition demo_world_stop_publish_raises :: world where
  "demo_world_stop_publish_raises =
     demo_world\<lparr>stop_requested_during := (\<lambda>ph. ph = PREPARE),
                publish_to_agent := (\<lambda>c. Some ''Not connected to Redis'')\<rparr>"

text \<open>The workers that were handed a benchmark run, in order.\<close>

fun run_target :: "remote_cmd \<Rightarrow> string option" where
  "run_target (RunFio c cmd) = Some (cl_id c)"
| "run_target (RunFillCluster c) = Some (cl_id c)"
| "run_target (ProbeClient c) = None"
| "run_target (EnsureFio c) = None"
| "run_target (InstallCephCommon c) = None"
| "run_target (MountFilesystem c) = None"
| "run_target (UnmountFilesystem c mp) = None"
| "run_target (CleanupClient c) = None"

definition run_targets :: "remote_cmd list \<Rightarrow> string list" where
  "run_targets cmds = List.map_filter run_target cmds"

text \<open>
  A controller host without \<open>sshpass\<close> on which \<open>ssh\<close> itself works, and a client
  configured with a password and no key.
\<close>

definition demo_controller :: controller where
  "demo_controller =
     \<lparr> spawn = (\<lambda>argv. case argv of
                    [] \<Rightarrow> Raises OtherException ''empty command''
                  | a # rest \<Rightarrow>
                      if a = ''sshpass''
                      then Raises FileNotFoundError ''No such file or directory: sshpass''
                      else Exited 0 ''connected'' []),
       path_exists = (\<lambda>p. False) \<rparr>"

definition demo_ssh_client :: SSHClient where
  "demo_ssh_client =
     \<lparr> hostname = ''192.168.1.100'', username = ''root'', private_key_path = None,
       password = Some ''secret'', port = 22 \<rparr>"

section \<open>Results about the precheck verdict\<close>

lemma verdict_cases:
  "verdict bs ws = (s, p, m) \<Longrightarrow>
     (s = ''failed'' \<longleftrightarrow> bs \<noteq> []) \<and>
     (s = ''passed_with_warnings'' \<longleftrightarrow> bs = [] \<and> ws \<noteq> []) \<and>
     (s = ''passed'' \<longleftrightarrow> bs = [] \<and> ws = []) \<and>
     (p \<longleftrightarrow> s \<noteq> ''failed'')"
  by (auto simp: verdict_def split: if_splits)

lemma run_all_prechecks_verdict:
  assumes "run_all_prechecks r a = Inr rep"
  shows "(overall_status rep, can_proceed rep, proceed_message rep)
           = verdict (blocking_issues rep) (warnings rep)"
  using assms
  by (auto simp: run_all_prechecks_def Let_def split: prod.splits sum.splits if_splits)

text \<open>
  C5. For every precheck run that returns a report, the overall verdict is \<open>failed\<close> iff
  at least one blocking issue was collected, else \<open>passed_with_warnings\<close> iff at least one
  warning was collected, else \<open>passed\<close>; and \<open>can_proceed\<close> is true exactly when the
  verdict is not \<open>failed\<close>.
\<close>

theorem precheck_verdict:
  assumes "run_all_prechecks r a = Inr rep"
  shows "(overall_status rep = ''failed'' \<longleftrightarrow> blocking_issues rep \<noteq> []) \<and>
         (overall_status rep = ''passed_with_warnings''
            \<longleftrightarrow> blocking_issues rep = [] \<and> warnings rep \<noteq> []) \<and>
         (overall_status rep = ''passed''
            \<longleftrightarrow> blocking_issues rep = [] \<and> warnings rep = []) \<and>
         (can_proceed rep \<longleftrightarrow> overall_status rep \<noteq> ''failed'')"
  using verdict_cases [OF run_all_prechecks_verdict [OF assms, symmetric]] .

theorem precheck_verdict_witness:
  "\<exists>rep. run_all_prechecks demo_runner demo_answers = Inr rep \<and>
         overall_status rep = ''failed'' \<and> \<not> can_proceed rep \<and>
         blocking_issues rep = [''[Cluster] osd_status: 2 OSDs down'']"
proof -
  obtain rep where r: "run_all_prechecks demo_runner demo_answers = Inr rep"
    and b: "blocking_issues rep = [''[Cluster] osd_status: 2 OSDs down'']"
    by (simp add: run_all_prechecks_def cluster_phase_def demo_runner_def demo_answers_def
        worker_a_def worker_b_def verdict_def Let_def str_nat.simps)
  from precheck_verdict [OF r] b show ?thesis using r by auto
qed

section \<open>Results about the FIO command line\<close>

lemma fio_rw_mixed:
  "fio_rw p r \<in> set [''randrw'', ''rw''] \<longleftrightarrow> r \<noteq> 100 \<and> r \<noteq> 0"
  by (simp add: fio_rw_def)

text \<open>
  C8. For every I/O configuration whose read percentage lies in 0..100, the emitted
  command is the argument list joined by blanks; its one \<open>--rw=\<close> argument is
  \<open>randread\<close>/\<open>read\<close> at 100 percent reads, \<open>randwrite\<close>/\<open>write\<close> at 0 percent and
  \<open>randrw\<close>/\<open>rw\<close> otherwise, the random variant exactly when the pattern is \<open>random\<close>;
  a \<open>--rwmixread=\<close> argument is present exactly when the mode is mixed and then carries
  the read percentage; and the five fixed flags are always among the arguments.
\<close>

theorem fio_command_flags:
  assumes "0 \<le> get_or (io_read_percent io) 100" and "get_or (io_read_percent io) 100 \<le> 100"
  shows "build_fio_command io tc dir eid cid = join_str '' '' (fio_args io tc dir eid cid) \<and>
         filter (\<lambda>a. take 5 a = ''--rw='') (fio_args io tc dir eid cid) =
           [''--rw='' @
             (if get_or (io_read_percent io) 100 = 100
              then (if get_or (io_pattern io) ''random'' = ''random'' then ''randread'' else ''read'')
              else if get_or (io_read_percent io) 100 = 0
              then (if get_or (io_pattern io) ''random'' = ''random'' then ''randwrite'' else ''write'')
              else (if get_or (io_pattern io) ''random'' = ''random'' then ''randrw'' else ''rw''))] \<and>
         filter (\<lambda>a. take 12 a = ''--rwmixread='') (fio_args io tc dir eid cid) =
           (if 0 < get_or (io_read_percent io) 100 \<and> get_or (io_read_percent io) 100 < 100
            then [''--rwmixread='' @ str_int (get_or (io_read_percent io) 100)] else []) \<and>
         set [''--time_based'', ''--group_reporting'', ''--output-format=json'',
              ''--ioengine=libaio'', ''--end_fsync=1''] \<subseteq> set (fio_args io tc dir eid cid)"
proof -
  have mixed: "fio_rw (get_or (io_pattern io) ''random'') (get_or (io_read_percent io) 100)
                 \<in> set [''randrw'', ''rw'']
               \<longleftrightarrow> 0 < get_or (io_read_percent io) 100 \<and> get_or (io_read_percent io) 100 < 100"
    using assms
      fio_rw_mixed [of "get_or (io_pattern io) ''random''" "get_or (io_read_percent io) 100"]
    by auto
  have rw: "filter (\<lambda>a. take 5 a = ''--rw='') (fio_args io tc dir eid cid) =
              [''--rw='' @ fio_rw (get_or (io_pattern io) ''random'') (get_or (io_read_percent io) 100)]"
    by (simp add: fio_args_def Let_def)
  have mix: "filter (\<lambda>a. take 12 a = ''--rwmixread='') (fio_args io tc dir eid cid) =
           (if fio_rw (get_or (io_pattern io) ''random'') (get_or (io_read_percent io) 100)
                 \<in> set [''randrw'', ''rw'']
            then [''--rwmixread='' @ str_int (get_or (io_read_percent io) 100)] else [])"
    by (simp add: fio_args_def Let_def)
  have fixed: "set [''--time_based'', ''--group_reporting'', ''--output-format=json'',
              ''--ioengine=libaio'', ''--end_fsync=1''] \<subseteq> set (fio_args io tc dir eid cid)"
    by (simp add: fio_args_def Let_def)
  show ?thesis
    unfolding build_fio_command_def
    using rw mix fixed mixed by (simp add: fio_rw_def)
qed

theorem fio_command_flags_witness:
  "build_fio_command demo_io demo_test ''/mnt/scale_test'' ''exec-1'' ''client-1'' =
     ''fio --name=scale_test_client-1 --directory=/mnt/scale_test --rw=randrw --bs=4k --size=1G --numjobs=4 --iodepth=32 --runtime=60 --time_based --group_reporting --output-format=json --rwmixread=70 --direct=1 --ramp_time=5 --ioengine=libaio --end_fsync=1'' \<and>
   filter (\<lambda>a. take 12 a = ''--rwmixread='')
     (fio_args demo_io demo_test ''/mnt/scale_test'' ''exec-1'' ''client-1'') = [''--rwmixread=70'']"
proof -
  have r: "get_or (io_read_percent demo_io) 100 = 70"
    by (simp add: demo_io_def get_or_def)
  have s: "str_int 70 = ''70''"
    by (simp add: str_int_def str_nat.simps digit_char_def)
  have c: "build_fio_command demo_io demo_test ''/mnt/scale_test'' ''exec-1'' ''client-1'' =
     ''fio --name=scale_test_client-1 --directory=/mnt/scale_test --rw=randrw --bs=4k --size=1G --numjobs=4 --iodepth=32 --runtime=60 --time_based --group_reporting --output-format=json --rwmixread=70 --direct=1 --ramp_time=5 --ioengine=libaio --end_fsync=1''"
    by (simp add: build_fio_command_def fio_args_def fio_rw_def demo_io_def demo_test_def
        get_or_def str_int_def str_nat.simps digit_char_def)
  from fio_command_flags [of demo_io demo_test "''/mnt/scale_test''" "''exec-1''" "''client-1''"]
  show ?thesis using r s c by simp
qed

section \<open>Results about execution-record updates\<close>

lemma apply_assignments_eq: "apply_assignments assigns r = r ++ map_of (rev assigns)"
proof (induction assigns arbitrary: r)
  case Nil
  show ?case by (simp add: apply_assignments_def)
next
  case (Cons a assigns)
  obtain k v where a: "a = (k, v)" by (cases a)
  have "apply_assignments (a # assigns) r = apply_assignments assigns (r(k \<mapsto> v))"
    by (simp add: apply_assignments_def a)
  also have "\<dots> = r(k \<mapsto> v) ++ map_of (rev assigns)"
    by (rule Cons.IH)
  also have "\<dots> = r ++ map_of (rev (a # assigns))"
    by (rule ext) (simp add: a map_add_def split: option.splits)
  finally show ?case .
qed

lemma map_of_all_same:
  "k \<in> fst ` set xs \<Longrightarrow> \<forall>(k', v') \<in> set xs. k' = k \<longrightarrow> v' = v \<Longrightarrow> map_of xs k = Some v"
  by (induction xs) (auto split: if_splits)

lemma dict_set_keys: "fst ` set (dict_set k v kw) = insert k (fst ` set kw)"
  by (auto simp: dict_set_def image_iff split: if_splits prod.splits) force+

lemma dict_set_lookup_same: "map_of (rev (dict_set k v kw)) k = Some v"
proof (rule map_of_all_same)
  show "k \<in> fst ` set (rev (dict_set k v kw))"
    by (simp add: dict_set_keys)
  show "\<forall>(k', v') \<in> set (rev (dict_set k v kw)). k' = k \<longrightarrow> v' = v"
    by (auto simp: dict_set_def image_iff split: if_splits)
qed

lemma map_of_rev_map_other:
  "k' \<noteq> k \<Longrightarrow>
   map_of (rev (map (\<lambda>(a, b). if a = k then (a, v) else (a, b)) kw)) k' = map_of (rev kw) k'"
  by (induction kw) (auto simp: map_add_def split: option.splits)

lemma dict_set_lookup_other:
  "k' \<noteq> k \<Longrightarrow> map_of (rev (dict_set k v kw)) k' = map_of (rev kw) k'"
  by (simp add: dict_set_def map_of_rev_map_other map_add_def split: option.splits)

lemma map_of_rev_None: "k \<notin> fst ` set kw \<Longrightarrow> map_of (rev kw) k = None"
  by (simp add: map_of_eq_None_iff)

lemma update_execution_status_unfold:
  "update_execution_status now table execution_id status kwargs =
     (if ''status'' \<in> set (map fst kwargs) \<or> ''execution_id'' \<in> set (map fst kwargs)
      then Inl TypeError
      else sql_update (assigned now status kwargs) execution_id table)"
  unfolding update_execution_status_def assigned_def Let_def ..

lemma sql_update_rows:
  assumes "sql_update assigns execution_id table = Inr table'"
  shows "table' = map (\<lambda>r. if r ''id'' = Some (Text execution_id)
                             then r ++ map_of (rev assigns) else r) table"
proof (cases "list_all (\<lambda>(k, v). k \<in> set executions_columns) assigns")
  case False
  then have "sql_update assigns execution_id table = Inl OperationalError"
    by (simp only: sql_update_def if_True not_False_eq_True)
  with assms show ?thesis by simp
next
  case True
  let ?t = "map (\<lambda>r. if r ''id'' = Some (Text execution_id)
                       then apply_assignments assigns r else r) table"
  from True have u: "sql_update assigns execution_id table =
                 (if primary_key_ok ?t then Inr ?t else Inl IntegrityError)"
    by (simp only: sql_update_def Let_def not_True_eq_False if_False)
  show ?thesis
  proof (cases "primary_key_ok ?t")
    case True
    with u assms have "table' = ?t" by (simp only: if_True sum.inject)
    then show ?thesis by (simp only: apply_assignments_eq)
  next
    case False
    with u have "sql_update assigns execution_id table = Inl IntegrityError"
      by (simp only: if_False)
    with assms show ?thesis by simp
  qed
qed

lemma update_execution_status_rows:
  assumes "update_execution_status now table execution_id status kwargs = Inr table'"
  shows "table' = map (\<lambda>r. if r ''id'' = Some (Text execution_id)
                             then r ++ map_of (rev (assigned now status kwargs)) else r) table"
    and "''status'' \<notin> fst ` set kwargs"
proof -
  have ok: "\<not> (''status'' \<in> set (map fst kwargs) \<or> ''execution_id'' \<in> set (map fst kwargs))"
  proof
    assume "''status'' \<in> set (map fst kwargs) \<or> ''execution_id'' \<in> set (map fst kwargs)"
    then have "update_execution_status now table execution_id status kwargs = Inl TypeError"
      by (simp only: update_execution_status_unfold if_True)
    with assms show False by simp
  qed
  then have "sql_update (assigned now status kwargs) execution_id table = Inr table'"
    using assms by (simp only: update_execution_status_unfold if_False)
  then show "table' = map (\<lambda>r. if r ''id'' = Some (Text execution_id)
                             then r ++ map_of (rev (assigned now status kwargs)) else r) table"
    by (rule sql_update_rows)
  from ok show "''status'' \<notin> fst ` set kwargs"
    by (simp only: set_map de_Morgan_disj) simp
qed

lemma assigned_status:
  "''status'' \<notin> fst ` set kwargs \<Longrightarrow>
   map_of (rev (assigned now status kwargs)) ''status'' = Some (Text status)"
  by (auto simp: assigned_def Let_def dict_set_lookup_other map_of_rev_None map_add_def
      split: option.splits)

lemma assigned_completed_at:
  "status \<in> set [''completed'', ''failed'', ''cancelled''] \<Longrightarrow>
   map_of (rev (assigned now status kwargs)) ''completed_at'' = Some (Text now)"
  by (auto simp: assigned_def Let_def dict_set_lookup_same map_add_def split: option.splits)

lemma assigned_started_at:
  "status = ''running'' \<Longrightarrow> ''started_at'' \<notin> set (map fst kwargs) \<Longrightarrow>
   map_of (rev (assigned now status kwargs)) ''started_at'' = Some (Text now)"
  by (auto simp: assigned_def Let_def dict_set_lookup_same map_add_def split: option.splits)

lemma assigned_untouched:
  assumes "col \<noteq> ''status''" and "col \<notin> fst ` set kwargs"
    and "\<not> (col = ''completed_at'' \<and> status \<in> set [''completed'', ''failed'', ''cancelled''])"
    and "\<not> (col = ''started_at'' \<and> status = ''running'')"
  shows "map_of (rev (assigned now status kwargs)) col = None"
proof -
  have "col \<notin> fst ` set (assigned now status kwargs)"
    using assms by (auto simp: assigned_def Let_def dict_set_keys)
  then show ?thesis by (rule map_of_rev_None)
qed

text \<open>
  C10. For an accepted update of an execution record: the record's status becomes the
  given one; a terminal status (completed, failed, cancelled) sets \<open>completed_at\<close> to the
  clock reading; status running sets \<open>started_at\<close> to the clock reading when the call
  supplies no \<open>started_at\<close>; every column that is neither \<open>status\<close>, nor a keyword of the
  call, nor one of these two timestamps in its case, keeps its value; and the records of
  other executions are left as they were.
\<close>

theorem status_update_columns:
  assumes "update_execution_status now table execution_id status kwargs = Inr table'"
    and "i < length table"
    and "(table ! i) ''id'' = Some (Text execution_id)"
  shows "(table' ! i) ''status'' = Some (Text status) \<and>
         (status \<in> set [''completed'', ''failed'', ''cancelled'']
            \<longrightarrow> (table' ! i) ''completed_at'' = Some (Text now)) \<and>
         (status = ''running'' \<and> ''started_at'' \<notin> set (map fst kwargs)
            \<longrightarrow> (table' ! i) ''started_at'' = Some (Text now)) \<and>
         (\<forall>col. col \<noteq> ''status'' \<and> col \<notin> set (map fst kwargs) \<and>
                \<not> (col = ''completed_at'' \<and> status \<in> set [''completed'', ''failed'', ''cancelled'']) \<and>
                \<not> (col = ''started_at'' \<and> status = ''running'')
            \<longrightarrow> (table' ! i) col = (table ! i) col) \<and>
         length table' = length table \<and>
         (\<forall>j < length table. (table ! j) ''id'' \<noteq> Some (Text execution_id)
            \<longrightarrow> table' ! j = table ! j)"
proof -
  note rows = update_execution_status_rows [OF assms(1)]
  have row: "table' ! i = (table ! i) ++ map_of (rev (assigned now status kwargs))"
    using assms(2,3) by (simp add: rows(1))
  have a: "(table' ! i) ''status'' = Some (Text status)"
    by (simp add: row map_add_def assigned_status [OF rows(2)])
  have b: "(table' ! i) ''completed_at'' = Some (Text now)"
    if "status \<in> set [''completed'', ''failed'', ''cancelled'']"
    by (simp add: row map_add_def assigned_completed_at [OF that])
  have c: "(table' ! i) ''started_at'' = Some (Text now)"
    if "status = ''running''" and "''started_at'' \<notin> set (map fst kwargs)"
    by (simp add: row map_add_def assigned_started_at [OF that])
  have d: "(table' ! i) col = (table ! i) col"
    if "col \<noteq> ''status''" and "col \<notin> set (map fst kwargs)"
      and "\<not> (col = ''completed_at'' \<and> status \<in> set [''completed'', ''failed'', ''cancelled''])"
      and "\<not> (col = ''started_at'' \<and> status = ''running'')" for col
  proof -
    have "col \<notin> fst ` set kwargs" using that(2) by simp
    from assigned_untouched [OF that(1) this that(3,4)]
    show ?thesis by (simp add: row map_add_def)
  qed
  have e: "length table' = length table"
    by (simp add: rows(1))
  have f: "table' ! j = table ! j"
    if "j < length table" and "(table ! j) ''id'' \<noteq> Some (Text execution_id)" for j
    using that by (simp add: rows(1))
  from a b c d e f show ?thesis by blast
qed

theorem status_update_columns_witness:
  "\<exists>t'. update_execution_status ''2024-05-01T10:00:00'' demo_table ''exec-1'' ''completed''
           [(''client_count'', Integer 2)] = Inr t' \<and>
        (t' ! 0) ''status'' = Some (Text ''completed'') \<and>
        (t' ! 0) ''completed_at'' = Some (Text ''2024-05-01T10:00:00'') \<and>
        (t' ! 0) ''name'' = Some (Text ''nightly'') \<and>
        t' ! 1 = demo_table ! 1"
proof -
  obtain t' where u: "update_execution_status ''2024-05-01T10:00:00'' demo_table ''exec-1''
                        ''completed'' [(''client_count'', Integer 2)] = Inr t'"
    by (simp add: update_execution_status_def sql_update_def dict_set_def apply_assignments_def
        primary_key_ok_def executions_columns_def demo_table_def demo_row1_def demo_row2_def
        Let_def)
  have i: "0 < length demo_table" "1 < length demo_table"
    by (simp_all add: demo_table_def)
  have k: "(demo_table ! 0) ''id'' = Some (Text ''exec-1'')"
    "(demo_table ! 1) ''id'' \<noteq> Some (Text ''exec-1'')"
    "(demo_table ! 0) ''name'' = Some (Text ''nightly'')"
    by (simp_all add: demo_table_def demo_row1_def demo_row2_def)
  from status_update_columns [OF u i(1) k(1)] i(2) k(2,3) u show ?thesis
    by auto
qed

section \<open>Results about limited metrics reads\<close>

lemma take_every_nth:
  "0 < k \<Longrightarrow> \<forall>i < m. i * k < length xs \<Longrightarrow>
   take m (every_nth k xs) = map (\<lambda>i. xs ! (i * k)) [0..<m]"
proof (induction m arbitrary: xs)
  case 0
  show ?case by simp
next
  case (Suc m)
  note pos = Suc.prems(1)
  from Suc.prems(2) have "0 * k < length xs" by blast
  then obtain x xs' where xs: "xs = x # xs'" by (cases xs) auto
  have inner: "\<forall>i < m. i * k < length (drop (k - 1) xs')"
  proof (intro allI impI)
    fix i assume "i < m"
    then have "Suc i < Suc m" by simp
    with Suc.prems(2) have "Suc i * k < length xs" by blast
    with pos show "i * k < length (drop (k - 1) xs')" by (simp add: xs)
  qed
  have step: "drop (k - 1) xs' ! (i * k) = xs ! (Suc i * k)" if "i < m" for i
  proof -
    from inner that have "i * k < length xs' - (k - 1)" by simp
    then have le: "k - 1 \<le> length xs'" by simp
    have idx: "Suc i * k = Suc (k - 1 + i * k)" using pos by simp
    have "drop (k - 1) xs' ! (i * k) = xs' ! (k - 1 + i * k)"
      using le by (rule nth_drop)
    also have "\<dots> = xs ! (Suc i * k)"
      by (simp only: idx xs nth_Cons_Suc)
    finally show ?thesis .
  qed
  have "take (Suc m) (every_nth k xs) = x # take m (every_nth k (drop (k - 1) xs'))"
    by (simp add: xs)
  also have "\<dots> = x # map (\<lambda>i. drop (k - 1) xs' ! (i * k)) [0..<m]"
    by (simp only: Suc.IH [OF pos inner])
  also have "\<dots> = x # map (\<lambda>i. xs ! (Suc i * k)) [0..<m]"
    using step by simp
  also have "\<dots> = map (\<lambda>i. xs ! (i * k)) [0..<Suc m]"
    by (simp add: xs upt_conv_Cons map_Suc_upt [symmetric] del: upt_Suc)
  finally show ?case .
qed

lemma stride_in_range:
  assumes "0 < (l::nat)" and "l < n" and "i < l"
  shows "i * (n div l) < n - 1"
proof -
  have pos: "0 < n div l" using assms by (simp add: div_greater_zero_iff)
  have "Suc i \<le> l" using assms by simp
  have "i * (n div l) + n div l = Suc i * (n div l)" by simp
  also have "\<dots> \<le> l * (n div l)" by (rule mult_le_mono1) fact
  also have "\<dots> \<le> n" by simp
  finally have sum: "i * (n div l) + n div l \<le> n" .
  show ?thesis
  proof (cases "n div l = 1")
    case True
    have "i * (n div l) = i" by (simp only: True mult_1_right)
    moreover have "i < n - 1" using assms by simp
    ultimately show ?thesis by (simp only:)
  next
    case False
    with pos have "2 \<le> n div l" by simp
    with sum show ?thesis by simp
  qed
qed

lemma apply_limit_sampled:
  assumes "0 < limit" and "limit < int (length metrics)"
  shows "apply_limit limit metrics =
           Inr (map (\<lambda>i. metrics ! (i * (length metrics div nat limit))) [0..<nat limit])"
proof -
  let ?n = "length metrics" and ?l = "nat limit"
  have l: "0 < ?l" "?l < ?n" using assms by simp_all
  have step: "int ?n div limit = int (?n div ?l)" using assms by (simp add: zdiv_int)
  have pos: "0 < ?n div ?l" using l by (simp add: div_greater_zero_iff)
  have rng: "\<forall>i < ?l. i * (?n div ?l) < ?n"
  proof (intro allI impI)
    fix i assume "i < ?l"
    from stride_in_range [OF l this] show "i * (?n div ?l) < ?n" by simp
  qed
  have "apply_limit limit metrics = Inr (py_take limit (every_nth (?n div ?l) metrics))"
    using assms pos by (simp add: apply_limit_def py_stride_def step)
  also have "py_take limit (every_nth (?n div ?l) metrics) = take ?l (every_nth (?n div ?l) metrics)"
    using assms by (simp add: py_take_def)
  also have "\<dots> = map (\<lambda>i. metrics ! (i * (?n div ?l))) [0..<?l]"
    using pos rng by (rule take_every_nth)
  finally show ?thesis .
qed

text \<open>
  C7, as the code has it. For a read whose window holds more samples than a limit of at
  least one, the returned slice is the samples at positions \<open>0, s, 2s, ...\<close> of the window
  in file order, with \<open>s\<close> the sample count divided by the limit and rounded down; it has
  exactly \<open>limit\<close> elements and begins with the first sample of the window; every position
  picked lies before the last one, so the last sample's position is never picked.
\<close>

theorem limited_read_stride:
  assumes "0 < limit" and "limit < int (length (read_metrics file lo hi))"
  shows "get_metrics file lo hi limit =
           Inr (map (\<lambda>i. read_metrics file lo hi !
                          (i * (length (read_metrics file lo hi) div nat limit)))
                  [0..<nat limit]) \<and>
         (\<forall>i < nat limit. i * (length (read_metrics file lo hi) div nat limit)
                            < length (read_metrics file lo hi) - 1)"
proof -
  have l: "0 < nat limit" "nat limit < length (read_metrics file lo hi)"
    using assms by simp_all
  show ?thesis
    unfolding get_metrics_def
    using apply_limit_sampled [OF assms] stride_in_range [OF l] by blast
qed

theorem limited_read_stride_witness:
  "get_metrics demo_file (Some 2) None 3 =
     Inr [\<lparr>ts = 2, body = 20\<rparr>, \<lparr>ts = 3, body = 30\<rparr>, \<lparr>ts = 4, body = 40\<rparr>]"
proof -
  have w: "read_metrics demo_file (Some 2) None =
             [\<lparr>ts = 2, body = 20\<rparr>, \<lparr>ts = 3, body = 30\<rparr>, \<lparr>ts = 4, body = 40\<rparr>,
              \<lparr>ts = 5, body = 50\<rparr>]"
    by (simp add: read_metrics_def demo_file_def)
  have h: "(0::int) < 3" "3 < int (length (read_metrics demo_file (Some 2) None))"
    by (simp_all add: w)
  have u: "[0..<3] = [0, 1, 2::nat]"
    by (simp add: upt_conv_Cons)
  from limited_read_stride [OF h] show ?thesis
    by (simp add: w u)
qed

text \<open>
  The claim as written fails: of five samples read with limit 2, the slice is the first and
  the third, and the fifth, the last of the window, is not in it.
\<close>

theorem limited_read_counterexample:
  "2 < int (length (read_metrics demo_file None None)) \<and>
   get_metrics demo_file None None 2 = Inr [\<lparr>ts = 1, body = 10\<rparr>, \<lparr>ts = 3, body = 30\<rparr>] \<and>
   last (read_metrics demo_file None None) = \<lparr>ts = 5, body = 50\<rparr> \<and>
   \<lparr>ts = 5, body = 50\<rparr> \<notin> set [\<lparr>ts = 1, body = 10::nat\<rparr>, \<lparr>ts = 3, body = 30\<rparr>]"
  by (simp add: get_metrics_def read_metrics_def apply_limit_def py_stride_def py_take_def
      demo_file_def)

section \<open>Results about the I/O configuration\<close>

lemma validate_rw_percent_sum: "r + validate_rw_percent w (Some r) = 100"
  by (simp add: validate_rw_percent_def)

text \<open>
  When both percentages are supplied, each in 0..100, the construction succeeds, keeps the
  read percentage, and the validator makes the two add up to 100.
\<close>

lemma io_config_supplied_pair:
  assumes "0 \<le> r" and "r \<le> 100" and "0 \<le> w" and "w \<le> 100"
  shows "\<exists>cfg. IOConfig_new (Some r) (Some w) = Inr cfg \<and> read_percent cfg = r \<and>
               read_percent cfg + write_percent cfg = 100"
  using assms by (simp add: IOConfig_new_def percent_ok_def Let_def validate_rw_percent_sum)

lemma io_config_supplied_pair_example:
  "\<exists>cfg. IOConfig_new (Some 80) (Some 10) = Inr cfg \<and> read_percent cfg = 80 \<and>
         write_percent cfg = 20"
proof -
  have h: "(0::int) \<le> 80" "(80::int) \<le> 100" "(0::int) \<le> 10" "(10::int) \<le> 100"
    by simp_all
  from io_config_supplied_pair [OF h]
  obtain cfg where "IOConfig_new (Some 80) (Some 10) = Inr cfg" and "read_percent cfg = 80"
    and "read_percent cfg + write_percent cfg = 100"
    by blast
  then show ?thesis by simp
qed

text \<open>
  C9, at a failing input. A configuration given a read percentage of 70 and no write
  percentage validates successfully: the validator that is to ensure
  \<open>read_percent + write_percent = 100\<close> is attached to \<open>write_percent\<close> and is not run on
  the default that fills the omitted field. The validated configuration has 70 percent
  reads and 0 percent writes, which add up to 70, where the claim says 100.
\<close>

theorem io_config_write_omitted:
  "IOConfig_new (Some 70) None =
     Inr \<lparr> pattern = RANDOM, block_size = ''4k'', read_percent = 70, write_percent = 0,
           io_depth = 32, num_jobs = 1, direct_io = True, verify_data = False,
           sync_io = False \<rparr> \<and>
   read_percent \<lparr> pattern = RANDOM, block_size = ''4k'', read_percent = 70, write_percent = 0,
                  io_depth = 32, num_jobs = 1, direct_io = True, verify_data = False,
                  sync_io = False \<rparr>
   + write_percent \<lparr> pattern = RANDOM, block_size = ''4k'', read_percent = 70,
                     write_percent = 0, io_depth = 32, num_jobs = 1, direct_io = True,
                     verify_data = False, sync_io = False \<rparr> = 70"
  by (simp add: IOConfig_new_def percent_ok_def Let_def)

section \<open>Results about the execution engine\<close>

lemma precheck_probes_harmless:
  "list_all (\<lambda>c. \<not> is_benchmark_cmd c) (precheck_probes r a)"
  by (auto simp: precheck_probes_def list_all_iff split: sum.splits)

lemma failed_verdict_blocks:
  assumes "run_all_prechecks r a = Inr report" and "overall_status report = ''failed''"
  shows "\<not> can_proceed report"
  using verdict_cases [OF run_all_prechecks_verdict [OF assms(1), symmetric]] assms(2)
  by simp

text \<open>
  C1. For every execution started with \<open>run_prechecks = true\<close> whose precheck run returns
  a report with verdict \<open>failed\<close>: the execution record goes to \<open>prechecks\<close> and then to
  \<open>failed\<close>, where it stays, with the blocking issues as its error; and the only commands
  sent to workers are the health probes of the precheck itself, none of which installs the
  tool, mounts, or runs the benchmark.
\<close>

theorem precheck_gating:
  assumes "cluster_config_error w = None"
    and "run_all_prechecks (make_runner w wc) (precheck_world w) = Inr report"
    and "overall_status report = ''failed''"
  shows "current_status (run_execution w wc execution_id True s0) = FAILED \<and>
         map su_status (status_updates (run_execution w wc execution_id True s0)) =
           map su_status (status_updates s0) @ [PRECHECKS, FAILED] \<and>
         su_error_message (last (status_updates (run_execution w wc execution_id True s0))) =
           Some (PrechecksFailed (blocking_issues report)) \<and>
         remote_commands (run_execution w wc execution_id True s0) =
           remote_commands s0 @ precheck_probes (make_runner w wc) (precheck_world w) \<and>
         list_all (\<lambda>c. \<not> is_benchmark_cmd c)
           (precheck_probes (make_runner w wc) (precheck_world w))"
proof -
  note blocked = failed_verdict_blocks [OF assms(2,3)]
  let ?s = "s0\<lparr>active_executions := Some initial_execution,
                stop_flags := Some False, pause_flags := Some False\<rparr>"
  have phase: "run_prechecks_phase w wc (arrivals w PRECHECK ?s) =
          (Inl (PrechecksFailed (blocking_issues report)),
           (send_all (precheck_probes (make_runner w wc) (precheck_world w))
              (update_state PRECHECK (set_status PRECHECKS (arrivals w PRECHECK ?s))))
             \<lparr>precheck_report_file := Some report\<rparr>)"
    using assms(1,2) blocked by (simp add: run_prechecks_phase_def Let_def)
  have tb: "try_block w wc execution_id True ?s =
          (Inl (PrechecksFailed (blocking_issues report)),
           (send_all (precheck_probes (make_runner w wc) (precheck_world w))
              (update_state PRECHECK (set_status PRECHECKS (arrivals w PRECHECK ?s))))
             \<lparr>precheck_report_file := Some report\<rparr>)"
    by (simp add: try_block_def bind_r_def phase)
  have run: "run_execution w wc execution_id True s0 =
          cleanup_execution
            (write_log (LogExecutionFailed (PrechecksFailed (blocking_issues report)))
               (((send_all (precheck_probes (make_runner w wc) (precheck_world w))
                    (update_state PRECHECK (set_status PRECHECKS (arrivals w PRECHECK ?s))))
                   \<lparr>precheck_report_file := Some report\<rparr>)
                 \<lparr>status_updates :=
                    status_updates
                      ((send_all (precheck_probes (make_runner w wc) (precheck_world w))
                          (update_state PRECHECK
                             (set_status PRECHECKS (arrivals w PRECHECK ?s))))
                         \<lparr>precheck_report_file := Some report\<rparr>) @
                    [\<lparr>su_status = FAILED,
                      su_error_message = Some (PrechecksFailed (blocking_issues report)),
                      su_client_count = None, su_totals = None\<rparr>]\<rparr>))"
    by (simp add: run_execution_def except_finally_def tb)
  have st: "status_updates (run_execution w wc execution_id True s0) =
          status_updates s0 @
            [\<lparr>su_status = PRECHECKS, su_error_message = None, su_client_count = None,
              su_totals = None\<rparr>,
             \<lparr>su_status = FAILED,
              su_error_message = Some (PrechecksFailed (blocking_issues report)),
              su_client_count = None, su_totals = None\<rparr>]"
    by (simp add: run cleanup_execution_def write_log_def send_all_def update_state_def
        set_status_def arrivals_def stop_execution_def initial_execution_def)
  have rc: "remote_commands (run_execution w wc execution_id True s0) =
          remote_commands s0 @ precheck_probes (make_runner w wc) (precheck_world w)"
    by (simp add: run cleanup_execution_def write_log_def send_all_def update_state_def
        set_status_def arrivals_def stop_execution_def initial_execution_def)
  have cur: "current_status (run_execution w wc execution_id True s0) = FAILED"
    by (simp add: current_status_def st)
  show ?thesis
    using cur rc precheck_probes_harmless by (simp add: st)
qed

theorem precheck_gating_witness:
  "current_status (run_execution demo_world_unhealthy demo_wc_cluster ''exec-1'' True fresh_engine)
     = FAILED \<and>
   remote_commands (run_execution demo_world_unhealthy demo_wc_cluster ''exec-1'' True fresh_engine)
     = [ProbeClient worker_a, ProbeClient worker_b]"
proof -
  have h1: "cluster_config_error demo_world_unhealthy = None"
    by (simp add: demo_world_unhealthy_def demo_world_def)
  have mr: "make_runner demo_world_unhealthy demo_wc_cluster = demo_runner"
    by (simp add: make_runner_def demo_world_unhealthy_def demo_world_def demo_wc_cluster_def
        demo_wc_def demo_runner_def)
  have pw: "precheck_world demo_world_unhealthy = demo_answers"
    by (simp add: demo_world_unhealthy_def)
  obtain report where
    h2: "run_all_prechecks (make_runner demo_world_unhealthy demo_wc_cluster)
           (precheck_world demo_world_unhealthy) = Inr report"
    and h3: "overall_status report = ''failed''"
    unfolding mr pw
    by (simp add: run_all_prechecks_def cluster_phase_def demo_runner_def demo_answers_def
        worker_a_def worker_b_def verdict_def Let_def str_nat.simps)
  have p: "precheck_probes (make_runner demo_world_unhealthy demo_wc_cluster)
             (precheck_world demo_world_unhealthy) = [ProbeClient worker_a, ProbeClient worker_b]"
    unfolding mr pw
    by (simp add: precheck_probes_def demo_runner_def demo_answers_def)
  from precheck_gating [OF h1 h2 h3, of "''exec-1''" fresh_engine] p show ?thesis
    by (simp add: fresh_engine_def)
qed

lemma process_one_state:
  "snd (process_one clock i c r (tot, s)) =
     (case r of
        Inl e \<Rightarrow> write_log (LogFioFailed (cl_id c) e) s
      | Inr (success, message, metrics) \<Rightarrow>
          (case (if success then metrics else None) of
             Some m \<Rightarrow> append_client_metrics (cl_id c)
                         \<lparr>cs_ts = clock i, cs_client_id = cl_id c, cs_metrics = m\<rparr> s
           | None \<Rightarrow> write_log (LogFioIssue (cl_id c) message) s))"
  by (cases tot) (simp add: process_one_def split: sum.splits prod.splits option.splits)

lemma process_one_files_other:
  "cl_id c \<noteq> cid \<Longrightarrow>
   client_metrics_files (snd (process_one clock i c r acc)) cid = client_metrics_files (snd acc) cid"
  by (cases acc)
     (simp add: process_one_state append_client_metrics_def write_log_def
        split: sum.splits prod.splits option.splits)

lemma process_one_files_same:
  "client_metrics_files (snd acc') cid = client_metrics_files (snd acc) cid \<Longrightarrow>
   client_metrics_files (snd (process_one clock i c r acc')) cid =
     client_metrics_files (snd (process_one clock i c r acc)) cid"
  by (cases acc; cases acc')
     (auto simp: process_one_state append_client_metrics_def write_log_def
        split: sum.splits prod.splits option.splits)

lemma process_one_log:
  "\<exists>ls. execution_log (snd (process_one clock i c r acc)) = execution_log (snd acc) @ ls"
  by (cases acc)
     (simp add: process_one_state append_client_metrics_def write_log_def
        split: sum.splits prod.splits option.splits)

lemma process_one_raised:
  "execution_log (snd (process_one clock i c (Inl e) acc)) =
     execution_log (snd acc) @ [LogFioFailed (cl_id c) e]"
  by (cases acc) (simp add: process_one_state write_log_def)

lemma process_one_rest:
  "remote_commands (snd (process_one clock i c r acc)) = remote_commands (snd acc) \<and>
   status_updates (snd (process_one clock i c r acc)) = status_updates (snd acc) \<and>
   active_executions (snd (process_one clock i c r acc)) = active_executions (snd acc)"
  by (cases acc)
     (simp add: process_one_state append_client_metrics_def write_log_def
        split: sum.splits prod.splits option.splits)

lemma process_results_log:
  "\<exists>ls. execution_log (snd (process_results clock i crs acc)) = execution_log (snd acc) @ ls"
proof (induction crs arbitrary: i acc)
  case Nil
  show ?case by simp
next
  case (Cons cr crs)
  obtain c r where cr: "cr = (c, r)" by (cases cr)
  from Cons.IH [of "i + 1" "process_one clock i c r acc"] process_one_log [of clock i c r acc]
  show ?case by (auto simp: cr)
qed

lemma process_results_raised:
  "(c, Inl e) \<in> set crs \<Longrightarrow>
   LogFioFailed (cl_id c) e \<in> set (execution_log (snd (process_results clock i crs acc)))"
proof (induction crs arbitrary: i acc)
  case Nil
  then show ?case by simp
next
  case (Cons cr crs)
  obtain c' r' where cr: "cr = (c', r')" by (cases cr)
  show ?case
  proof (cases "cr = (c, Inl e)")
    case True
    obtain ls where
      "execution_log (snd (process_results clock (i + 1) crs (process_one clock i c (Inl e) acc)))
         = execution_log (snd (process_one clock i c (Inl e) acc)) @ ls"
      using process_results_log by blast
    then show ?thesis by (simp add: True process_one_raised)
  next
    case False
    with Cons.prems have "(c, Inl e) \<in> set crs" by simp
    from Cons.IH [OF this] show ?thesis by (simp add: cr)
  qed
qed

lemma process_results_files:
  assumes "\<forall>c \<in> set cs. cl_id c = cid \<longrightarrow> f' c = f c"
    and "client_metrics_files (snd acc') cid = client_metrics_files (snd acc) cid"
  shows "client_metrics_files (snd (process_results clock i (zip cs (map f' cs)) acc')) cid =
         client_metrics_files (snd (process_results clock i (zip cs (map f cs)) acc)) cid"
  using assms
proof (induction cs arbitrary: i acc acc')
  case Nil
  then show ?case by simp
next
  case (Cons c cs)
  have step: "client_metrics_files (snd (process_one clock i c (f' c) acc')) cid =
              client_metrics_files (snd (process_one clock i c (f c) acc)) cid"
  proof (cases "cl_id c = cid")
    case True
    with Cons.prems(1) have same: "f' c = f c" by simp
    show ?thesis
      unfolding same using Cons.prems(2) by (rule process_one_files_same)
  next
    case False
    show ?thesis
      by (simp only: process_one_files_other [OF False] Cons.prems(2))
  qed
  from Cons.prems(1) have rest: "\<forall>c \<in> set cs. cl_id c = cid \<longrightarrow> f' c = f c" by simp
  from Cons.IH [OF rest step] show ?case by simp
qed

lemma process_results_rest:
  "remote_commands (snd (process_results clock i crs acc)) = remote_commands (snd acc) \<and>
   status_updates (snd (process_results clock i crs acc)) = status_updates (snd acc) \<and>
   active_executions (snd (process_results clock i crs acc)) = active_executions (snd acc)"
proof (induction crs arbitrary: i acc)
  case Nil
  show ?case by simp
next
  case (Cons cr crs)
  obtain c r where cr: "cr = (c, r)" by (cases cr)
  from Cons.IH [of "i + 1" "process_one clock i c r acc"] process_one_rest [of clock i c r acc]
  show ?case by (simp add: cr)
qed
lemma zip_map_member: "x \<in> set xs \<Longrightarrow> (x, f x) \<in> set (zip xs (map f xs))"
  by (induction xs) auto

lemma gather_run_map:
  "gather_run w wc cs =
     map (if wc_tool wc = ''fill_cluster'' then run_fill_cluster w else run_fio w) cs"
  by (simp add: gather_run_def)

lemma inject_failure_task:
  "(if wc_tool wc = ''fill_cluster'' then run_fill_cluster (inject_failure victim e w)
    else run_fio (inject_failure victim e w)) c =
   (if c = victim then Inl e
    else (if wc_tool wc = ''fill_cluster'' then run_fill_cluster w else run_fio w) c)"
  by (simp add: inject_failure_def)

lemma inject_failure_clock: "utcnow (inject_failure victim e w) = utcnow w"
  by (simp add: inject_failure_def)

lemma the_clients_running:
  "the_clients (update_state STEADY_STATE (set_status RUNNING s)) = the_clients s"
  by (simp add: the_clients_def update_state_def set_status_def split: option.splits)

lemma run_execution_phase_empty:
  "the_clients s = [] \<Longrightarrow>
   run_execution_phase w wc execution_id s =
     (Inl NoClientsAvailable, update_state STEADY_STATE (set_status RUNNING s))"
  by (simp add: run_execution_phase_def Let_def the_clients_running)

lemma run_execution_phase_nonempty:
  assumes "the_clients s \<noteq> []"
  shows "fst (run_execution_phase w wc execution_id s) = Inr ()"
    and "client_metrics_files (snd (run_execution_phase w wc execution_id s)) cid =
         client_metrics_files
           (snd (process_results (utcnow w) 0
                   (zip (the_clients s) (gather_run w wc (the_clients s)))
                   ((0, 0, 0, 0),
                    send_all (run_tasks wc execution_id (the_clients s))
                      (update_state STEADY_STATE (set_status RUNNING s))))) cid"
    and "execution_log (snd (run_execution_phase w wc execution_id s)) =
         execution_log
           (snd (process_results (utcnow w) 0
                   (zip (the_clients s) (gather_run w wc (the_clients s)))
                   ((0, 0, 0, 0),
                    send_all (run_tasks wc execution_id (the_clients s))
                      (update_state STEADY_STATE (set_status RUNNING s)))))"
  using assms
  by (simp_all add: run_execution_phase_def Let_def the_clients_running split: prod.splits)

text \<open>
  C6. Let one worker's run task raise. The gather still returns one entry per participant:
  the exception for that worker and, for every other participant, the same result as
  without the failure. The run phase ends as it would have ended without the failure (it
  does not raise whenever there are participants), the exception is written to the
  execution's log as that worker's error, and the metrics file of every other worker holds
  exactly what it holds after a run in which the worker does not fail.
\<close>

theorem fanout_isolation:
  "length (gather_run (inject_failure victim e w) wc cs) = length cs \<and>
   (\<forall>i < length cs.
      gather_run (inject_failure victim e w) wc cs ! i =
        (if cs ! i = victim then Inl e else gather_run w wc cs ! i)) \<and>
   fst (run_execution_phase (inject_failure victim e w) wc execution_id s) =
     fst (run_execution_phase w wc execution_id s) \<and>
   (the_clients s \<noteq> [] \<longrightarrow>
      fst (run_execution_phase (inject_failure victim e w) wc execution_id s) = Inr ()) \<and>
   (victim \<in> set (the_clients s) \<longrightarrow>
      LogFioFailed (cl_id victim) e \<in>
        set (execution_log
               (snd (run_execution_phase (inject_failure victim e w) wc execution_id s)))) \<and>
   (\<forall>cid. cid \<noteq> cl_id victim \<longrightarrow>
      client_metrics_files
        (snd (run_execution_phase (inject_failure victim e w) wc execution_id s)) cid =
      client_metrics_files (snd (run_execution_phase w wc execution_id s)) cid)"
proof -
  let ?w' = "inject_failure victim e w"
  let ?f = "if wc_tool wc = ''fill_cluster'' then run_fill_cluster w else run_fio w"
  let ?f' = "if wc_tool wc = ''fill_cluster'' then run_fill_cluster ?w' else run_fio ?w'"
  let ?s1 = "update_state STEADY_STATE (set_status RUNNING s)"
  let ?cs = "the_clients s"
  have len: "length (gather_run ?w' wc cs) = length cs"
    by (simp add: gather_run_map)
  have nth: "gather_run ?w' wc cs ! i = (if cs ! i = victim then Inl e else gather_run w wc cs ! i)"
    if "i < length cs" for i
    using that by (simp only: gather_run_map nth_map inject_failure_task)
  have out: "fst (run_execution_phase ?w' wc execution_id s) =
             fst (run_execution_phase w wc execution_id s)"
  proof (cases "?cs = []")
    case True
    then show ?thesis by (simp add: run_execution_phase_empty)
  next
    case False
    then show ?thesis by (simp add: run_execution_phase_nonempty(1))
  qed
  have ok: "fst (run_execution_phase ?w' wc execution_id s) = Inr ()" if "?cs \<noteq> []"
    using that by (rule run_execution_phase_nonempty(1))
  have logged: "LogFioFailed (cl_id victim) e \<in>
        set (execution_log (snd (run_execution_phase ?w' wc execution_id s)))"
    if v: "victim \<in> set ?cs"
  proof -
    from v have ne: "?cs \<noteq> []" by auto
    have "(victim, ?f' victim) \<in> set (zip ?cs (map ?f' ?cs))"
      using v by (rule zip_map_member)
    moreover have "?f' victim = Inl e"
      by (simp only: inject_failure_task) simp
    ultimately have "(victim, Inl e) \<in> set (zip ?cs (gather_run ?w' wc ?cs))"
      by (simp only: gather_run_map)
    then show ?thesis
      by (simp only: run_execution_phase_nonempty(3) [OF ne] process_results_raised)
  qed
  have files: "client_metrics_files (snd (run_execution_phase ?w' wc execution_id s)) cid =
               client_metrics_files (snd (run_execution_phase w wc execution_id s)) cid"
    if c: "cid \<noteq> cl_id victim" for cid
  proof (cases "?cs = []")
    case True
    then show ?thesis by (simp add: run_execution_phase_empty)
  next
    case False
    have agree: "\<forall>c \<in> set ?cs. cl_id c = cid \<longrightarrow> ?f' c = ?f c"
    proof (intro ballI impI)
      fix c assume "c \<in> set ?cs" and "cl_id c = cid"
      with c have "c \<noteq> victim" by auto
      then show "?f' c = ?f c" by (simp only: inject_failure_task) simp
    qed
    have "client_metrics_files
            (snd (process_results (utcnow w) 0 (zip ?cs (map ?f' ?cs))
                    ((0, 0, 0, 0), send_all (run_tasks wc execution_id ?cs) ?s1))) cid =
          client_metrics_files
            (snd (process_results (utcnow w) 0 (zip ?cs (map ?f ?cs))
                    ((0, 0, 0, 0), send_all (run_tasks wc execution_id ?cs) ?s1))) cid"
      using agree by (rule process_results_files) simp
    then show ?thesis
      by (simp only: run_execution_phase_nonempty(2) [OF False] gather_run_map
          inject_failure_clock)
  qed
  from len nth out ok logged files show ?thesis by blast
qed
theorem fanout_isolation_witness:
  "client_metrics_files
     (snd (run_execution_phase (inject_failure worker_a ''boom'' demo_world) demo_wc ''exec-1''
             demo_prepared)) ''client-2'' =
     [\<lparr>cs_ts = 1001, cs_client_id = ''client-2'',
       cs_metrics = \<lparr>iops_t = 1000, bw_mbps_t = 100, lat_us_avg = 100\<rparr>\<rparr>] \<and>
   LogFioFailed ''client-1'' ''boom'' \<in>
     set (execution_log
            (snd (run_execution_phase (inject_failure worker_a ''boom'' demo_world) demo_wc
                    ''exec-1'' demo_prepared))) \<and>
   fst (run_execution_phase (inject_failure worker_a ''boom'' demo_world) demo_wc ''exec-1''
          demo_prepared) = Inr ()"
proof -
  have a: "''client-2'' \<noteq> cl_id worker_a" and a': "cl_id worker_a = ''client-1''"
    by (simp_all add: worker_a_def)
  have b: "the_clients demo_prepared = [worker_a, worker_b]"
    by (simp add: demo_prepared_def the_clients_def fresh_engine_def initial_execution_def)
  have c: "client_metrics_files
             (snd (run_execution_phase demo_world demo_wc ''exec-1'' demo_prepared)) ''client-2'' =
           [\<lparr>cs_ts = 1001, cs_client_id = ''client-2'',
             cs_metrics = \<lparr>iops_t = 1000, bw_mbps_t = 100, lat_us_avg = 100\<rparr>\<rparr>]"
    by code_simp
  note iso = fanout_isolation [of worker_a "''boom''" demo_world demo_wc "[worker_a, worker_b]"
      "''exec-1''" demo_prepared]
  have ne: "the_clients demo_prepared \<noteq> []" and v: "worker_a \<in> set (the_clients demo_prepared)"
    by (simp_all add: b)
  from iso ne have ok: "fst (run_execution_phase (inject_failure worker_a ''boom'' demo_world)
                               demo_wc ''exec-1'' demo_prepared) = Inr ()"
    by blast
  from iso v have lg: "LogFioFailed (cl_id worker_a) ''boom'' \<in>
     set (execution_log
            (snd (run_execution_phase (inject_failure worker_a ''boom'' demo_world) demo_wc
                    ''exec-1'' demo_prepared)))"
    by blast
  from iso a have "client_metrics_files
     (snd (run_execution_phase (inject_failure worker_a ''boom'' demo_world) demo_wc ''exec-1''
             demo_prepared)) ''client-2'' =
     client_metrics_files
       (snd (run_execution_phase demo_world demo_wc ''exec-1'' demo_prepared)) ''client-2''"
    by blast
  with c ok lg show ?thesis
    by (simp only: a')
qed

text \<open>
  C3, at a failing input. Two workers, prechecks and preparation succeed, and the stop
  request arrives while the benchmark runs (the record's status is \<open>running\<close>). No
  checkpoint follows the run phase: no stop event is published, cleanup runs as usual, and
  the record ends \<open>completed\<close>, where the claim says \<open>cancelled\<close>.
\<close>

theorem stop_while_running_completes:
  "stop_requested_during demo_world_stop_while_running STEADY_STATE \<and>
   map su_status
     (status_updates
        (run_execution demo_world_stop_while_running demo_wc ''exec-1'' True fresh_engine)) =
     [PRECHECKS, PREPARING, PREPARING, RUNNING, RUNNING, COMPLETED] \<and>
   current_status
     (run_execution demo_world_stop_while_running demo_wc ''exec-1'' True fresh_engine) =
     COMPLETED \<and>
   published_stops
     (run_execution demo_world_stop_while_running demo_wc ''exec-1'' True fresh_engine) = []"
  by code_simp

text \<open>
  A stop request that arrives during preparation is seen by the checkpoint after it and
  the record is set to \<open>cancelled\<close>; when publishing the stop event raises, the handler of
  \<open>run_execution\<close> then sets it to \<open>failed\<close>.
\<close>

lemma stop_publish_raises_fails:
  "map su_status
     (status_updates
        (run_execution demo_world_stop_publish_raises demo_wc ''exec-1'' True fresh_engine)) =
     [PRECHECKS, PREPARING, PREPARING, CANCELLED, FAILED]"
  by code_simp

text \<open>
  C4, at a failing input. The FIO install fails on the second of two workers of a block
  workload. The prepare phase logs the failure and filters its local list, but the
  participant list it stored before the install is not rewritten, and the run phase fans
  out to both workers.
\<close>

theorem install_failure_still_runs:
  "ensure_fio_installed demo_world_install_fails worker_b = Inr (False, ''Failed to install FIO: '') \<and>
   execution_log
     (run_execution demo_world_install_fails demo_wc ''exec-1'' True fresh_engine) =
     [LogFioInstallFailed [''client-2'']] \<and>
   run_targets
     (remote_commands
        (run_execution demo_world_install_fails demo_wc ''exec-1'' True fresh_engine)) =
     [''client-1'', ''client-2'']"
  by code_simp

section \<open>Results about remote commands\<close>

lemma drop_sshpass:
  "truthy (password c) \<Longrightarrow>
   drop 3 (build_ssh_command ctl c command) = build_ssh_command ctl (c\<lparr>password := None\<rparr>) command"
  by (simp add: build_ssh_command_def truthy_def Let_def)

lemma sshpass_in_command:
  "truthy (password c) \<Longrightarrow> ''sshpass'' \<in> set (build_ssh_command ctl c command)"
  by (simp add: build_ssh_command_def Let_def)

text \<open>
  C2, as the code has it. Let starting the \<open>sshpass\<close> command fail because the executable
  is missing. \<open>SSHClient.run_command\<close> then starts exactly one more command, the same
  \<open>ssh\<close> invocation without \<open>sshpass\<close> and without the password, and returns what that
  attempt gives: its exit code and output, or exit code -1 with the exception text if it
  raises. \<open>WorkloadExecutor.run_ssh_command\<close> starts nothing more and returns exit code
  -1 with the exception text.
\<close>

theorem sshpass_absent_behaviour:
  "(truthy (password c) \<and>
    spawn ctl (build_ssh_command ctl c command) = Raises FileNotFoundError t
    \<longrightarrow> snd (run_command ctl c command timeout raise_on_error) =
          [build_ssh_command ctl c command,
           build_ssh_command ctl (c\<lparr>password := None\<rparr>) command] \<and>
        fst (run_command ctl c command timeout raise_on_error) =
          (case spawn ctl (build_ssh_command ctl (c\<lparr>password := None\<rparr>) command) of
             Exited rc out err \<Rightarrow> \<lparr>exit_code = rc, stdout = out, stderr = err\<rparr>
           | Raises k t2 \<Rightarrow> failed_result t2)) \<and>
   (truthy pw \<and> \<not> truthy key_path \<and>
    spawn ctl (executor_ssh_command host user cmd pw key_path prt)
      = Raises FileNotFoundError t'
    \<longrightarrow> run_ssh_command ctl host user cmd pw key_path prt =
          ((- 1, [], t'), [executor_ssh_command host user cmd pw key_path prt]))"
proof (intro conjI impI)
  assume a: "truthy (password c) \<and>
             spawn ctl (build_ssh_command ctl c command) = Raises FileNotFoundError t"
  then have p: "truthy (password c)"
    and s: "spawn ctl (build_ssh_command ctl c command) = Raises FileNotFoundError t"
    by simp_all
  have r: "run_command ctl c command timeout raise_on_error =
           (case spawn ctl (build_ssh_command ctl (c\<lparr>password := None\<rparr>) command) of
              Exited rc out err \<Rightarrow>
                (\<lparr>exit_code = rc, stdout = out, stderr = err\<rparr>,
                 [build_ssh_command ctl c command,
                  build_ssh_command ctl (c\<lparr>password := None\<rparr>) command])
            | Raises k t2 \<Rightarrow>
                (failed_result t2,
                 [build_ssh_command ctl c command,
                  build_ssh_command ctl (c\<lparr>password := None\<rparr>) command]))"
    by (simp add: run_command_def Let_def s p sshpass_in_command [OF p] drop_sshpass [OF p])
  show "snd (run_command ctl c command timeout raise_on_error) =
          [build_ssh_command ctl c command,
           build_ssh_command ctl (c\<lparr>password := None\<rparr>) command]"
    by (simp add: r split: spawn_result.splits)
  show "fst (run_command ctl c command timeout raise_on_error) =
          (case spawn ctl (build_ssh_command ctl (c\<lparr>password := None\<rparr>) command) of
             Exited rc out err \<Rightarrow> \<lparr>exit_code = rc, stdout = out, stderr = err\<rparr>
           | Raises k t2 \<Rightarrow> failed_result t2)"
    by (simp add: r split: spawn_result.splits)
next
  assume "truthy pw \<and> \<not> truthy key_path \<and>
          spawn ctl (executor_ssh_command host user cmd pw key_path prt)
            = Raises FileNotFoundError t'"
  then show "run_ssh_command ctl host user cmd pw key_path prt =
          ((- 1, [], t'), [executor_ssh_command host user cmd pw key_path prt])"
    by (simp add: run_ssh_command_def Let_def)
qed

theorem sshpass_absent_behaviour_witness:
  "snd (run_command demo_controller demo_ssh_client ''uptime'' 60 True) =
     [build_ssh_command demo_controller demo_ssh_client ''uptime'',
      build_ssh_command demo_controller (demo_ssh_client\<lparr>password := None\<rparr>) ''uptime''] \<and>
   run_ssh_command demo_controller ''192.168.1.100'' ''root'' ''which fio'' (Some ''secret'') None 22
     = ((- 1, [], ''No such file or directory: sshpass''),
        [executor_ssh_command ''192.168.1.100'' ''root'' ''which fio'' (Some ''secret'') None 22])"
proof -
  have p: "truthy (password demo_ssh_client)" "truthy (Some ''secret'')" "\<not> truthy None"
    by (simp_all add: truthy_def demo_ssh_client_def)
  have s1: "spawn demo_controller (build_ssh_command demo_controller demo_ssh_client ''uptime'')
              = Raises FileNotFoundError ''No such file or directory: sshpass''"
    by (simp add: demo_controller_def build_ssh_command_def demo_ssh_client_def truthy_def
        Let_def)
  have s2: "spawn demo_controller
              (executor_ssh_command ''192.168.1.100'' ''root'' ''which fio'' (Some ''secret'') None 22)
              = Raises FileNotFoundError ''No such file or directory: sshpass''"
    by (simp add: demo_controller_def executor_ssh_command_def truthy_def Let_def)
  from sshpass_absent_behaviour [where c = demo_ssh_client and ctl = demo_controller
      and command = "''uptime''" and t = "''No such file or directory: sshpass''"
      and timeout = 60 and raise_on_error = True and pw = "Some ''secret''"
      and key_path = None and host = "''192.168.1.100''" and user = "''root''"
      and cmd = "''which fio''" and prt = 22
      and t' = "''No such file or directory: sshpass''"]
    p s1 s2
  show ?thesis by blast
qed

text \<open>
  The claim as written fails for \<open>SSHClient.run_command\<close>: with \<open>sshpass\<close> missing and a
  password configured, the command is run again without password authentication and its
  success is returned; no error is reported.
\<close>

theorem sshpass_absent_counterexample:
  "truthy (password demo_ssh_client) \<and>
   spawn demo_controller (build_ssh_command demo_controller demo_ssh_client ''echo connected'')
     = Raises FileNotFoundError ''No such file or directory: sshpass'' \<and>
   fst (run_command demo_controller demo_ssh_client ''echo connected'' 10 False)
     = \<lparr>exit_code = 0, stdout = ''connected'', stderr = []\<rparr> \<and>
   snd (run_command demo_controller demo_ssh_client ''echo connected'' 10 False)
     = [[''sshpass'', ''-p'', ''secret'', ''ssh'',
         ''-o'', ''StrictHostKeyChecking=no'', ''-o'', ''UserKnownHostsFile=/dev/null'',
         ''-o'', ''LogLevel=ERROR'', ''-o'', ''ConnectTimeout=10'', ''-p'', ''22'',
         ''root@192.168.1.100'', ''echo connected''],
        [''ssh'',
         ''-o'', ''StrictHostKeyChecking=no'', ''-o'', ''UserKnownHostsFile=/dev/null'',
         ''-o'', ''LogLevel=ERROR'', ''-o'', ''ConnectTimeout=10'', ''-p'', ''22'',
         ''root@192.168.1.100'', ''echo connected'']]"
  by code_simp

section \<open>Stop requests and install failures, for every world\<close>

lemma arrivals_flag:
  "arrivals w ph s =
     s\<lparr>stop_flags := (if stop_requested_during w ph then Some True else stop_flags s)\<rparr>"
  by (simp add: arrivals_def stop_execution_def)

lemma process_one_flag:
  "process_one clock i c r (tot, s\<lparr>stop_flags := x\<rparr>) =
     (fst (process_one clock i c r (tot, s)),
      (snd (process_one clock i c r (tot, s)))\<lparr>stop_flags := x\<rparr>)"
  by (cases tot)
     (simp add: process_one_def append_client_metrics_def write_log_def
        split: sum.splits prod.splits option.splits)

lemma process_results_flag:
  "process_results clock i crs (tot, s\<lparr>stop_flags := x\<rparr>) =
     (fst (process_results clock i crs (tot, s)),
      (snd (process_results clock i crs (tot, s)))\<lparr>stop_flags := x\<rparr>)"
proof (induction crs arbitrary: i tot s)
  case Nil
  show ?case by simp
next
  case (Cons cr crs)
  obtain c r where cr: "cr = (c, r)" by (cases cr)
  obtain tot' s' where p: "process_one clock i c r (tot, s) = (tot', s')"
    by (cases "process_one clock i c r (tot, s)")
  have "process_results clock i (cr # crs) (tot, s\<lparr>stop_flags := x\<rparr>) =
        process_results clock (i + 1) crs (tot', s'\<lparr>stop_flags := x\<rparr>)"
    by (simp add: cr process_one_flag p)
  also have "\<dots> = (fst (process_results clock (i + 1) crs (tot', s')),
                   (snd (process_results clock (i + 1) crs (tot', s')))\<lparr>stop_flags := x\<rparr>)"
    by (rule Cons.IH)
  finally show ?case by (simp add: cr p)
qed

lemma the_clients_flag: "the_clients (s\<lparr>stop_flags := x\<rparr>) = the_clients s"
  by (simp add: the_clients_def)

lemma the_clients_steady:
  "the_clients (update_state STEADY_STATE (set_status RUNNING s)) = the_clients s"
  by (simp add: the_clients_def update_state_def set_status_def split: option.splits)

lemma run_execution_phase_flag:
  "run_execution_phase w wc execution_id (s\<lparr>stop_flags := x\<rparr>) =
     (fst (run_execution_phase w wc execution_id s),
      (snd (run_execution_phase w wc execution_id s))\<lparr>stop_flags := x\<rparr>)"
proof -
  let ?cs = "the_clients s"
  let ?s1 = "update_state STEADY_STATE (set_status RUNNING s)"
  have st0: "update_state STEADY_STATE (set_status RUNNING (s\<lparr>stop_flags := x\<rparr>)) =
             ?s1\<lparr>stop_flags := x\<rparr>"
    by (simp add: update_state_def set_status_def split: option.splits)
  have st: "send_all cmds (?s1\<lparr>stop_flags := x\<rparr>) = (send_all cmds ?s1)\<lparr>stop_flags := x\<rparr>"
    for cmds
    by (simp add: send_all_def)
  show ?thesis
  proof (cases "?cs = []")
    case True
    then show ?thesis
      by (simp add: run_execution_phase_def Let_def the_clients_flag the_clients_steady st0)
  next
    case False
    obtain tot s3 where P: "process_results (utcnow w) 0 (zip ?cs (gather_run w wc ?cs))
                              ((0, 0, 0, 0), send_all (run_tasks wc execution_id ?cs) ?s1)
                            = (tot, s3)"
      by (cases "process_results (utcnow w) 0 (zip ?cs (gather_run w wc ?cs))
                   ((0, 0, 0, 0), send_all (run_tasks wc execution_id ?cs) ?s1)")
    obtain a b d n where tot: "tot = (a, b, d, n)" by (cases tot)
    have P': "process_results (utcnow w) 0 (zip ?cs (gather_run w wc ?cs))
                ((0, 0, 0, 0), (send_all (run_tasks wc execution_id ?cs) ?s1)\<lparr>stop_flags := x\<rparr>)
              = (tot, s3\<lparr>stop_flags := x\<rparr>)"
      by (simp add: process_results_flag P)
    have l: "run_execution_phase w wc execution_id (s\<lparr>stop_flags := x\<rparr>) =
             (Inr (),
              s3\<lparr>stop_flags := x,
                 aggregate_file := aggregate_file s3 @
                   [\<lparr>ts = utcnow w (length ?cs),
                     body = \<lparr>agg_iops_t = a, agg_bw_mbps_t = b,
                             agg_lat_us_avg = (if n > 0 then d / real n else 0),
                             agg_clients = length ?cs\<rparr>\<rparr>],
                 status_updates := status_updates s3 @
                   [\<lparr>su_status = RUNNING, su_error_message = None, su_client_count = None,
                     su_totals = Some (a, b, if n > 0 then d / real n else 0)\<rparr>]\<rparr>)"
      using False
      by (simp add: run_execution_phase_def Let_def the_clients_flag the_clients_steady st0 st
          P' tot)
    have r: "run_execution_phase w wc execution_id s =
             (Inr (),
              s3\<lparr>aggregate_file := aggregate_file s3 @
                   [\<lparr>ts = utcnow w (length ?cs),
                     body = \<lparr>agg_iops_t = a, agg_bw_mbps_t = b,
                             agg_lat_us_avg = (if n > 0 then d / real n else 0),
                             agg_clients = length ?cs\<rparr>\<rparr>],
                 status_updates := status_updates s3 @
                   [\<lparr>su_status = RUNNING, su_error_message = None, su_client_count = None,
                     su_totals = Some (a, b, if n > 0 then d / real n else 0)\<rparr>]\<rparr>)"
      using False
      by (simp add: run_execution_phase_def Let_def the_clients_steady P tot)
    show ?thesis by (simp add: l r)
  qed
qed

lemma run_cleanup_phase_flag:
  "run_cleanup_phase w wc (s\<lparr>stop_flags := x\<rparr>) = (run_cleanup_phase w wc s)\<lparr>stop_flags := x\<rparr>"
  by (simp add: run_cleanup_phase_def Let_def update_state_def send_all_def the_clients_def
      split: option.splits)

lemma except_finally_flag:
  "except_finally (r, s\<lparr>stop_flags := x\<rparr>) = except_finally (r, s)"
  by (simp add: except_finally_def cleanup_execution_def write_log_def split: sum.splits)

lemma set_status_flag:
  "set_status st (s\<lparr>stop_flags := x\<rparr>) = (set_status st s)\<lparr>stop_flags := x\<rparr>"
  by (simp add: set_status_def)

text \<open>
  After the second checkpoint the outcome of the run does not depend on stop requests: it
  is that of the run phase, the cleanup phase and the final status alone.
\<close>

lemma run_and_complete_ignores_stop:
  "except_finally (run_and_complete w wc execution_id s) =
   except_finally
     (bind_r (run_execution_phase w wc execution_id s)
        (\<lambda>u s4. (Inr (), set_status COMPLETED (run_cleanup_phase w wc s4))))"
proof -
  obtain r t where R: "run_execution_phase w wc execution_id s = (r, t)"
    by (cases "run_execution_phase w wc execution_id s")
  show ?thesis
  proof (cases r)
    case (Inl e)
    then show ?thesis
      by (simp add: run_and_complete_def arrivals_flag run_execution_phase_flag R bind_r_def
          except_finally_flag)
  next
    case (Inr u)
    then show ?thesis
      by (simp add: run_and_complete_def arrivals_flag run_execution_phase_flag R bind_r_def
          run_cleanup_phase_flag set_status_flag except_finally_flag)
  qed
qed

lemma except_finally_bind_cong:
  "(\<And>x s. except_finally (f x s) = except_finally (g x s)) \<Longrightarrow>
   except_finally (bind_r m f) = except_finally (bind_r m g)"
  by (cases m) (simp add: bind_r_def except_finally_def split: sum.splits)

lemma publish_stops_world:
  "publish_stops (w\<lparr>stop_requested_during := g\<rparr>) cs s = publish_stops w cs s"
  by (induction cs arbitrary: s) (simp_all split: option.splits)

lemma make_runner_world:
  "make_runner (w\<lparr>stop_requested_during := g\<rparr>) wc = make_runner w wc"
  by (simp add: make_runner_def)

lemma fio_step_world:
  "fio_step (w\<lparr>stop_requested_during := g\<rparr>) cs s = fio_step w cs s"
  by (simp add: fio_step_def ensure_fio_on_clients_def)

lemma mount_step_world:
  "mount_step (w\<lparr>stop_requested_during := g\<rparr>) m cs s = mount_step w m cs s"
proof -
  have "mount_failed (w\<lparr>stop_requested_during := g\<rparr>) = mount_failed w"
    by (simp add: mount_failed_def fun_eq_iff)
  then show ?thesis by (simp add: mount_step_def)
qed

lemma gather_run_world:
  "gather_run (w\<lparr>stop_requested_during := g\<rparr>) wc cs = gather_run w wc cs"
  by (simp add: gather_run_def)

lemma phases_world:
  "run_prechecks_phase (w\<lparr>stop_requested_during := g\<rparr>) wc s = run_prechecks_phase w wc s"
  "run_prepare_phase (w\<lparr>stop_requested_during := g\<rparr>) wc s = run_prepare_phase w wc s"
  "run_execution_phase (w\<lparr>stop_requested_during := g\<rparr>) wc execution_id s =
     run_execution_phase w wc execution_id s"
  "run_cleanup_phase (w\<lparr>stop_requested_during := g\<rparr>) wc s = run_cleanup_phase w wc s"
  "checkpoint (w\<lparr>stop_requested_during := g\<rparr>) s = checkpoint w s"
proof -
  show "run_prechecks_phase (w\<lparr>stop_requested_during := g\<rparr>) wc s = run_prechecks_phase w wc s"
    unfolding run_prechecks_phase_def make_runner_world
    by (simp add: Let_def cong: option.case_cong sum.case_cong)
  show "run_prepare_phase (w\<lparr>stop_requested_during := g\<rparr>) wc s = run_prepare_phase w wc s"
    unfolding run_prepare_phase_def fio_step_world mount_step_world
    by (simp add: Let_def cong: option.case_cong sum.case_cong if_cong)
  show "run_execution_phase (w\<lparr>stop_requested_during := g\<rparr>) wc execution_id s =
     run_execution_phase w wc execution_id s"
    unfolding run_execution_phase_def gather_run_world
    by (simp add: Let_def cong: option.case_cong sum.case_cong if_cong)
  show "run_cleanup_phase (w\<lparr>stop_requested_during := g\<rparr>) wc s = run_cleanup_phase w wc s"
    unfolding run_cleanup_phase_def
    by (simp add: Let_def cong: option.case_cong sum.case_cong if_cong)
  show "checkpoint (w\<lparr>stop_requested_during := g\<rparr>) s = checkpoint w s"
    unfolding checkpoint_def handle_stopped_def publish_stops_world
    by (simp add: Let_def cong: option.case_cong sum.case_cong if_cong)
qed

text \<open>
  Whatever the world, stop requests that arrive during the run phase or the cleanup phase
  change nothing in what \<open>run_execution\<close> leaves behind.
\<close>

lemma late_stop_ignored:
  assumes "g PRECHECK = stop_requested_during w PRECHECK"
    and "g PREPARE = stop_requested_during w PREPARE"
  shows "run_execution (w\<lparr>stop_requested_during := g\<rparr>) wc execution_id run_prechecks s0 =
         run_execution w wc execution_id run_prechecks s0"
proof -
  let ?w' = "w\<lparr>stop_requested_during := g\<rparr>"
  have arr: "arrivals ?w' PRECHECK = arrivals w PRECHECK" "arrivals ?w' PREPARE = arrivals w PREPARE"
    using assms by (simp_all add: arrivals_def fun_eq_iff)
  have tail: "except_finally (run_and_complete ?w' wc execution_id s) =
              except_finally (run_and_complete w wc execution_id s)" for s
    by (simp only: run_and_complete_ignores_stop phases_world)
  have c2: "except_finally
              (bind_r (checkpoint w s2)
                 (\<lambda>returned s3. if returned then (Inr (), s3)
                                 else run_and_complete ?w' wc execution_id s3)) =
            except_finally
              (bind_r (checkpoint w s2)
                 (\<lambda>returned s3. if returned then (Inr (), s3)
                                 else run_and_complete w wc execution_id s3))" for s2
    by (rule except_finally_bind_cong) (simp add: tail)
  have c1: "except_finally
              (bind_r (run_prepare_phase w wc s1)
                 (\<lambda>u s2. bind_r (checkpoint w s2)
                    (\<lambda>returned s3. if returned then (Inr (), s3)
                                    else run_and_complete ?w' wc execution_id s3))) =
            except_finally
              (bind_r (run_prepare_phase w wc s1)
                 (\<lambda>u s2. bind_r (checkpoint w s2)
                    (\<lambda>returned s3. if returned then (Inr (), s3)
                                    else run_and_complete w wc execution_id s3)))" for s1
    by (rule except_finally_bind_cong) (rule c2)
  have "except_finally (try_block ?w' wc execution_id run_prechecks s) =
        except_finally (try_block w wc execution_id run_prechecks s)" for s
    unfolding try_block_def phases_world arr
    by (rule except_finally_bind_cong) (simp add: c1)
  then show ?thesis by (simp only: run_execution_def)
qed

text \<open>
  Whatever the world: without a mount step, the participants the prepare phase leaves for
  the run phase are the selection from the inventory minus the precheck exclusions; the
  results of the FIO install do not enter.
\<close>

lemma prepare_participants_without_mount:
  assumes "active_executions s = Some a"
    and "wc_mount wc = None \<or> wc_storage_type wc \<noteq> ''file''"
    and "select_clients (wc_clients wc)
           (filter (\<lambda>c. cl_id c \<notin> set (get_or (ae_excluded_clients a) [])) (get_clients w)) \<noteq> []"
  shows "the_clients (snd (run_prepare_phase w wc s)) =
         select_clients (wc_clients wc)
           (filter (\<lambda>c. cl_id c \<notin> set (get_or (ae_excluded_clients a) [])) (get_clients w))"
proof -
  have ex: "active_executions (update_state PREPARE (set_status PREPARING s)) =
            Some (a\<lparr>ae_phase := PREPARE\<rparr>)"
    using assms(1) by (simp add: update_state_def set_status_def)
  have keep: "the_clients (snd (fio_step w cs t)) = the_clients t" for cs t
    by (simp add: fio_step_def Let_def the_clients_def send_all_def write_log_def)
  show ?thesis
    using assms(2,3)
    by (auto simp: run_prepare_phase_def Let_def ex keep the_clients_def fio_step_def
        send_all_def write_log_def split: prod.splits option.splits)
qed

end
